theory Spec2Isabelle
  imports Complex_Main "HOL-Library.Sublist"
begin

section \<open>Python strings\<close>

text \<open>
  A Python \<open>str\<close> is a \<open>string\<close>: the list of its characters, text outside ASCII in
  UTF-8. Case mapping and white space are Python's on ASCII text, which is what the
  identifiers, prefixes and table names of \<open>sensor.py\<close> are made of.
\<close>

definition upper_char :: "char \<Rightarrow> char" where
  "upper_char c =
     (case map_of (zip ''abcdefghijklmnopqrstuvwxyz'' ''ABCDEFGHIJKLMNOPQRSTUVWXYZ'') c of
        Some d \<Rightarrow> d | None \<Rightarrow> c)"

definition lower_char :: "char \<Rightarrow> char" where
  "lower_char c =
     (case map_of (zip ''ABCDEFGHIJKLMNOPQRSTUVWXYZ'' ''abcdefghijklmnopqrstuvwxyz'') c of
        Some d \<Rightarrow> d | None \<Rightarrow> c)"

text \<open>
  \<open>s.upper()\<close> and \<open>s.lower()\<close> on ASCII letters. A character outside ASCII is left
  as it is, also where Python maps a cased letter.
\<close>

definition upper :: "string \<Rightarrow> string" where
  "upper s = map upper_char s"

definition lower :: "string \<Rightarrow> string" where
  "lower s = map lower_char s"

text \<open>\<open>w in s\<close> on strings: \<open>w\<close> occurs in \<open>s\<close> as a contiguous run.\<close>

fun str_in :: "string \<Rightarrow> string \<Rightarrow> bool" where
  "str_in w [] = (w = [])"
| "str_in w (c # cs) = (prefix w (c # cs) \<or> str_in w cs)"

text \<open>
  \<open>s.replace(old, new)\<close>: the occurrences of \<open>old\<close> are replaced from the left, without
  overlap; an empty \<open>old\<close> matches before every character and at the end.
\<close>

function replace :: "string \<Rightarrow> string \<Rightarrow> string \<Rightarrow> string" where
  "replace [] new s = new @ concat (map (\<lambda>c. c # new) s)"
| "replace (a # old) new [] = []"
| "replace (a # old) new (c # cs) =
     (if prefix (a # old) (c # cs) then new @ replace (a # old) new (drop (length old) cs)
      else c # replace (a # old) new cs)"
  by pat_completeness auto
termination
  by (relation "measure (\<lambda>(old, new, s). length s)") auto

text \<open>
  \<open>s.split()\<close>: the maximal runs of characters that are not white space. \<open>split_runs\<close>
  cuts at every white-space character, the run being read first; \<open>split\<close> drops the
  empty runs. White space is the ASCII white space of Python; its white space outside
  ASCII, such as U+0085 and U+00A0, is not cut at.
\<close>

definition isspace :: "char \<Rightarrow> bool" where
  "isspace c = (c \<in> set [CHR '' '', CHR 0x09, CHR 0x0A, CHR 0x0B, CHR 0x0C, CHR 0x0D,
                            CHR 0x1C, CHR 0x1D, CHR 0x1E, CHR 0x1F])"

fun split_runs :: "string \<Rightarrow> string list" where
  "split_runs [] = [[]]"
| "split_runs (c # cs) =
     (if isspace c then [] # split_runs cs
      else (case split_runs cs of [] \<Rightarrow> [[c]] | w # ws \<Rightarrow> (c # w) # ws))"

definition split :: "string \<Rightarrow> string list" where
  "split s = filter (\<lambda>w. w \<noteq> []) (split_runs s)"

text \<open>\<open>sep.join(ws)\<close>.\<close>

fun join :: "string \<Rightarrow> string list \<Rightarrow> string" where
  "join sep [] = []"
| "join sep [w] = w"
| "join sep (w # v # ws) = w @ sep @ join sep (v # ws)"

text \<open>\<open>str(n)\<close> for an integer: its decimal digits, a minus sign before a negative one.\<close>

definition digit_char :: "nat \<Rightarrow> char" where
  "digit_char d = ''0123456789'' ! d"

function str_nat :: "nat \<Rightarrow> string" where
  "str_nat n = (if n < 10 then [digit_char n] else str_nat (n div 10) @ [digit_char (n mod 10)])"
  by pat_completeness auto
termination
  by (relation "measure id") auto

definition str_int :: "int \<Rightarrow> string" where
  "str_int i = (if i < 0 then CHR ''-'' # str_nat (nat (- i)) else str_nat (nat i))"

text \<open>Truth value of a string, and of a value that may be \<open>None\<close>.\<close>

definition truthy :: "string option \<Rightarrow> bool" where
  "truthy v = (case v of None \<Rightarrow> False | Some s \<Rightarrow> s \<noteq> [])"

section \<open>Exceptions and built-ins\<close>

datatype error = KeyError | AttributeError | ValueError | TypeError | OverflowError | IndexError

text \<open>
  The built-ins whose results depend on Python's number and format syntax are parameters
  of the model: \<open>py_float\<close> is \<open>float(value)\<close> on a raw snapshot value, \<open>py_int\<close> is
  \<open>int(x)\<close> on a float, \<open>py_str\<close> is the text an f-string gives a raw value, and
  \<open>py_format\<close> is \<open>template.format(idx)\<close>. Each returns the exception it raises as
  \<open>Inl\<close>.
\<close>

record ('v, 'f) builtins =
  py_float :: "'v \<Rightarrow> error + 'f"
  py_int :: "'f \<Rightarrow> error + int"
  py_str :: "'v \<Rightarrow> string"
  py_format :: "string \<Rightarrow> int \<Rightarrow> error + string"

section \<open>Configuration, coordinator and templates\<close>

text \<open>
  \<open>entry.data\<close> with its recognised options; \<open>None\<close> is an option the map omits.
\<close>

record entry_data =
  num_hps :: "int option"
  num_boil :: "int option"
  num_buff :: "int option"
  num_sol :: "int option"
  num_hc :: "int option"
  use_legacy_modbus_names :: "bool option"
  name :: "string option"

text \<open>\<open>d.get(key, default)\<close>.\<close>

definition get :: "'a option \<Rightarrow> 'a \<Rightarrow> 'a" where
  "get v dflt = (case v of None \<Rightarrow> dflt | Some x \<Rightarrow> x)"

text \<open>
  The coordinator as the sensors see it: the disabled-register predicate, the override
  table (\<open>None\<close> when the coordinator has no attribute \<open>sensor_overrides\<close>), the
  snapshot \<open>data\<close> (\<open>None\<close> before the first refresh), a dictionary from sensor ids to
  raw values held as the list of its items, and the configuration entry. A raw value is
  not \<open>None\<close>: \<open>data.get\<close> gives \<open>None\<close> for a sensor id without a value.
\<close>

record 'v coordinator =
  is_register_disabled :: "int \<Rightarrow> bool"
  sensor_overrides :: "(string \<rightharpoonup> string) option"
  data :: "(string \<times> 'v) list option"
  entry :: entry_data

text \<open>
  An entry of a device template. The keys read with a subscript are fields, the keys read
  with \<open>.get\<close> are optional.
\<close>

record 'f template_info =
  t_relative_address :: int
  t_name :: string
  t_unit :: "string option"
  t_scale :: "'f option"
  t_state_class :: "string option"
  t_device_class :: "string option"
  t_data_type :: "string option"
  t_device_type :: "string option"
  t_txt_mapping :: "bool option"
  t_precision :: "int option"

text \<open>An entry of \<open>SENSOR_TYPES\<close>, the general sensors.\<close>

record 'f general_info =
  g_address :: int
  g_name :: string
  g_override_name :: "string option"
  g_unit :: "string option"
  g_scale :: "'f option"
  g_state_class :: "string option"
  g_device_class :: "string option"
  g_data_type :: "string option"
  g_device_type :: "string option"
  g_txt_mapping :: "bool option"
  g_precision :: "int option"

text \<open>
  What \<open>sensor.py\<close> imports from the rest of the integration: the templates (dictionaries
  in insertion order), \<open>generate_base_addresses\<close>, the float \<open>1.0\<close>, and the module's
  global names as \<open>globals()\<close> shows them.
\<close>

datatype global_object = Dict "int \<rightharpoonup> string" | Object

record 'f module_consts =
  HP_SENSOR_TEMPLATES :: "(string \<times> 'f template_info) list"
  BOIL_SENSOR_TEMPLATES :: "(string \<times> 'f template_info) list"
  BUFF_SENSOR_TEMPLATES :: "(string \<times> 'f template_info) list"
  SOL_SENSOR_TEMPLATES :: "(string \<times> 'f template_info) list"
  HC_SENSOR_TEMPLATES :: "(string \<times> 'f template_info) list"
  SENSOR_TYPES :: "(string \<times> 'f general_info) list"
  generate_base_addresses :: "string \<Rightarrow> int \<Rightarrow> (int \<rightharpoonup> int)"
  float_one :: 'f
  globals :: "string \<rightharpoonup> global_object"

section \<open>The sensor\<close>

definition TEMPERATURE :: string where "TEMPERATURE = ''temperature''"
definition POWER :: string where "POWER = ''power''"
definition ENERGY :: string where "ENERGY = ''energy''"
definition TOTAL :: string where "TOTAL = ''total''"
definition TOTAL_INCREASING :: string where "TOTAL_INCREASING = ''total_increasing''"
definition MEASUREMENT :: string where "MEASUREMENT = ''measurement''"

text \<open>The unit \<open>\<degree>C\<close>, the degree sign in UTF-8.\<close>

definition deg_C :: string where
  "deg_C = [CHR 0xC2, CHR 0xB0, CHR ''C'']"

record 'f LambdaSensor =
  sensor_id :: string
  attr_name :: string
  attr_unique_id :: string
  entity_id :: string
  unit :: string
  address :: int
  scale :: 'f
  state_class :: string
  device_class :: "string option"
  relative_address :: int
  data_type :: "string option"
  device_type :: "string option"
  txt_mapping :: bool
  precision :: "int option"
  is_state_sensor :: bool
  attr_device_class :: "string option"
  attr_state_class :: "string option"
  attr_native_unit_of_measurement :: "string option"
  attr_suggested_display_precision :: "int option"

text \<open>
  \<open>LambdaSensor.__init__\<close>. The four \<open>attr_\<close> fields the host reads are \<open>None\<close> in the
  entity base class until the constructor sets them.
\<close>

definition LambdaSensor_init ::
  "string \<Rightarrow> string \<Rightarrow> string \<Rightarrow> int \<Rightarrow> 'f \<Rightarrow> string \<Rightarrow> string option \<Rightarrow> int \<Rightarrow>
   string option \<Rightarrow> string option \<Rightarrow> bool \<Rightarrow> int option \<Rightarrow> string option \<Rightarrow> string option \<Rightarrow>
   'f LambdaSensor" where
  "LambdaSensor_init sensor_id' name' unit' address' scale' state_class' device_class'
     relative_address' data_type' device_type' txt_mapping' precision' entity_id' unique_id' =
   \<lparr> sensor_id = sensor_id',
     attr_name = name',
     attr_unique_id = (if truthy unique_id' then the unique_id' else sensor_id'),
     entity_id = (if truthy entity_id' then the entity_id' else ''sensor.'' @ sensor_id'),
     unit = unit',
     address = address',
     scale = scale',
     state_class = state_class',
     device_class = device_class',
     relative_address = relative_address',
     data_type = data_type',
     device_type = device_type',
     txt_mapping = txt_mapping',
     precision = precision',
     is_state_sensor = txt_mapping',
     attr_device_class =
       (if txt_mapping' then None
        else if unit' = deg_C then Some TEMPERATURE
        else if unit' = ''W'' then Some POWER
        else if unit' = ''Wh'' then Some ENERGY
        else None),
     attr_state_class =
       (if txt_mapping' then None
        else if state_class' \<noteq> [] then
          (if state_class' = ''total'' then Some TOTAL
           else if state_class' = ''total_increasing'' then Some TOTAL_INCREASING
           else if state_class' = ''measurement'' then Some MEASUREMENT
           else None)
        else None),
     attr_native_unit_of_measurement = (if txt_mapping' then None else Some unit'),
     attr_suggested_display_precision = (if txt_mapping' then None else precision') \<rparr>"

text \<open>
  The property \<open>name\<close>: it returns the display name and the sensor, whose \<open>sensor_id\<close>
  it may have overwritten.
\<close>

definition name_property :: "'v coordinator \<Rightarrow> 'f LambdaSensor \<Rightarrow> string \<times> 'f LambdaSensor" where
  "name_property coordinator self =
     (if get (use_legacy_modbus_names (entry coordinator)) False
         \<and> sensor_overrides coordinator \<noteq> None
      then
        (let override_name = the (sensor_overrides coordinator) (sensor_id self)
         in if truthy override_name
            then (the override_name, self\<lparr>sensor_id := the override_name\<rparr>)
            else (attr_name self, self))
      else (attr_name self, self))"

text \<open>What \<open>native_value\<close> returns: a float, a label, or \<open>None\<close>.\<close>

datatype 'f native = PhysicalValue 'f | Label string

text \<open>
  The name of the mapping table of a state sensor (lines 377 to 385): \<open>upper\<close> of a device
  type that is \<open>None\<close> raises AttributeError.
\<close>

definition mapping_name :: "'f LambdaSensor \<Rightarrow> error + string" where
  "mapping_name self =
     (let base_name = attr_name self;
          base_name = (if truthy (device_type self) \<and> str_in (upper (the (device_type self))) base_name
                       then join '' '' (tl (split base_name))
                       else base_name)
      in case device_type self of
           None \<Rightarrow> Inl AttributeError
         | Some dt \<Rightarrow>
             Inr (upper dt @ ''_'' @ replace ''-'' ''_'' (replace '' '' ''_'' (upper base_name))))"

text \<open>
  The lookup in \<open>globals()\<close> under \<open>try\<close> (lines 386 to 412): whatever it raises becomes the
  label \<open>Error loading mappings\<close>. An object that is no dictionary has no \<open>get\<close>.
\<close>

definition lookup_state :: "(string \<rightharpoonup> global_object) \<Rightarrow> string \<Rightarrow> int \<Rightarrow> string" where
  "lookup_state glob mname numeric_value =
     (let attempt =
        (case glob mname of
           Some (Dict state_mapping) \<Rightarrow>
             Inr (get (state_mapping numeric_value)
                      (''Unknown state ('' @ str_int numeric_value @ '')''))
         | Some Object \<Rightarrow> Inl AttributeError
         | None \<Rightarrow> Inr (''Unknown mapping for state ('' @ str_int numeric_value @ '')''))
      in case attempt of
           Inr label \<Rightarrow> label
         | Inl e \<Rightarrow> ''Error loading mappings ('' @ str_int numeric_value @ '')'')"

text \<open>\<open>int(float(value))\<close>.\<close>

definition int_float :: "('v, 'f) builtins \<Rightarrow> 'v \<Rightarrow> error + int" where
  "int_float py v = (case py_float py v of Inl e \<Rightarrow> Inl e | Inr x \<Rightarrow> py_int py x)"

text \<open>The property \<open>native_value\<close>.\<close>

definition native_value ::
  "('v, 'f) builtins \<Rightarrow> (string \<rightharpoonup> global_object) \<Rightarrow> 'v coordinator \<Rightarrow> 'f LambdaSensor \<Rightarrow>
   error + 'f native option" where
  "native_value py glob coordinator self =
     (case data coordinator of
        None \<Rightarrow> Inr None
      | Some [] \<Rightarrow> Inr None
      | Some (kv # kvs) \<Rightarrow>
          (case map_of (kv # kvs) (sensor_id self) of
             None \<Rightarrow> Inr None
           | Some v \<Rightarrow>
               if is_state_sensor self then
                 (case int_float py v of
                    Inl e \<Rightarrow>
                      if e = ValueError \<or> e = TypeError
                      then Inr (Some (Label (''Unknown state ('' @ py_str py v @ '')'')))
                      else Inl e
                  | Inr numeric_value \<Rightarrow>
                      (case mapping_name self of
                         Inl e \<Rightarrow> Inl e
                       | Inr mname \<Rightarrow>
                           Inr (Some (Label (lookup_state glob mname numeric_value)))))
               else
                 (case py_float py v of
                    Inr x \<Rightarrow> Inr (Some (PhysicalValue x))
                  | Inl e \<Rightarrow> if e = ValueError \<or> e = TypeError then Inr None else Inl e)))"

section \<open>Setting up the sensors\<close>

text \<open>Device class from the unit when the entry names none (lines 98 to 104, 201 to 207).\<close>

definition infer_device_class :: "string option \<Rightarrow> string option \<Rightarrow> string option" where
  "infer_device_class device_class' unit' =
     (if \<not> truthy device_class' \<and> unit' = Some deg_C then Some TEMPERATURE
      else if \<not> truthy device_class' \<and> unit' = Some ''W'' then Some POWER
      else if \<not> truthy device_class' \<and> unit' = Some ''Wh'' then Some ENERGY
      else device_class')"

text \<open>The data key \<open>{prefix}{idx}_{sensor_id}\<close>.\<close>

definition data_key :: "string \<Rightarrow> int \<Rightarrow> string \<Rightarrow> string" where
  "data_key prefix' idx sid = prefix' @ str_int idx @ ''_'' @ sid"

text \<open>
  Names and identifiers of a templated sensor (lines 106 to 154): the display name, the
  final sensor id, the entity id and the unique id.
\<close>

definition template_naming ::
  "('v, 'f) builtins \<Rightarrow> 'v coordinator \<Rightarrow> bool \<Rightarrow> string \<Rightarrow> string \<Rightarrow> int \<Rightarrow> string \<Rightarrow>
   'f template_info \<Rightarrow> error + (string \<times> string \<times> string \<times> string)" where
  "template_naming py coordinator legacy name_prefix prefix' idx sid sensor_info =
     (let override_name =
            (if legacy \<and> sensor_overrides coordinator \<noteq> None
             then the (sensor_overrides coordinator) (data_key prefix' idx sid)
             else None)
      in if truthy override_name then
           Inr (the override_name,
                data_key prefix' idx sid,
                ''sensor.'' @ name_prefix @ ''_'' @ the override_name,
                name_prefix @ ''_'' @ the override_name)
         else
           (case (if prefix' = ''hc'' \<and> t_device_type sensor_info = Some ''Climate''
                  then py_format py (t_name sensor_info) idx
                  else Inr (upper prefix' @ str_int idx @ '' '' @ t_name sensor_info)) of
              Inl e \<Rightarrow> Inl e
            | Inr name' \<Rightarrow>
                (let sensor_id_final = data_key prefix' idx sid;
                     entity_id' = (if legacy
                                   then ''sensor.'' @ name_prefix @ ''_'' @ data_key prefix' idx sid
                                   else ''sensor.'' @ sensor_id_final)
                 in Inr (name', sensor_id_final, entity_id', replace ''sensor.'' [] entity_id'))))"

text \<open>
  One pass of the innermost loop (lines 89 to 188): \<open>None\<close> when the register is
  disabled, the new sensor otherwise.
\<close>

definition template_sensor ::
  "'f module_consts \<Rightarrow> ('v, 'f) builtins \<Rightarrow> 'v coordinator \<Rightarrow> bool \<Rightarrow> string \<Rightarrow> string \<Rightarrow>
   int \<Rightarrow> int \<Rightarrow> string \<times> 'f template_info \<Rightarrow> error + 'f LambdaSensor option" where
  "template_sensor K py coordinator legacy name_prefix prefix' idx base_address item =
     (let sid = fst item; sensor_info = snd item;
          address' = base_address + t_relative_address sensor_info
      in if is_register_disabled coordinator address' then Inr None
         else
           (let device_class' =
                  infer_device_class (t_device_class sensor_info) (t_unit sensor_info)
            in case template_naming py coordinator legacy name_prefix prefix' idx sid sensor_info of
                 Inl e \<Rightarrow> Inl e
               | Inr (name', sensor_id_final, entity_id', unique_id') \<Rightarrow>
                   (let device_type' =
                          (if prefix' \<in> set [''hp'', ''boil'', ''hc'', ''buff'', ''sol'']
                           then upper prefix'
                           else get (t_device_type sensor_info) ''main'')
                    in Inr (Some (LambdaSensor_init
                         sensor_id_final
                         name'
                         (get (t_unit sensor_info) [])
                         address'
                         (get (t_scale sensor_info) (float_one K))
                         (get (t_state_class sensor_info) [])
                         device_class'
                         (t_relative_address sensor_info)
                         (t_data_type sensor_info)
                         (Some device_type')
                         (get (t_txt_mapping sensor_info) False)
                         (t_precision sensor_info)
                         (Some entity_id')
                         (Some unique_id'))))))"

text \<open>The loop over \<open>template.items()\<close> (line 88).\<close>

fun items_loop ::
  "'f module_consts \<Rightarrow> ('v, 'f) builtins \<Rightarrow> 'v coordinator \<Rightarrow> bool \<Rightarrow> string \<Rightarrow> string \<Rightarrow>
   int \<Rightarrow> int \<Rightarrow> (string \<times> 'f template_info) list \<Rightarrow> error + 'f LambdaSensor list" where
  "items_loop K py coordinator legacy name_prefix prefix' idx base_address [] = Inr []"
| "items_loop K py coordinator legacy name_prefix prefix' idx base_address (item # items) =
     (case template_sensor K py coordinator legacy name_prefix prefix' idx base_address item of
        Inl e \<Rightarrow> Inl e
      | Inr s \<Rightarrow>
          (case items_loop K py coordinator legacy name_prefix prefix' idx base_address items of
             Inl e \<Rightarrow> Inl e
           | Inr sensors \<Rightarrow> Inr (case s of None \<Rightarrow> sensors | Some x \<Rightarrow> x # sensors)))"

text \<open>
  The loop over the instance indices (lines 86 and 87): the base address is read from the
  dictionary \<open>generate_base_addresses\<close> returns, a missing index raising KeyError.
\<close>

fun instances_loop ::
  "'f module_consts \<Rightarrow> ('v, 'f) builtins \<Rightarrow> 'v coordinator \<Rightarrow> bool \<Rightarrow> string \<Rightarrow> string \<Rightarrow>
   int \<Rightarrow> (string \<times> 'f template_info) list \<Rightarrow> int list \<Rightarrow> error + 'f LambdaSensor list" where
  "instances_loop K py coordinator legacy name_prefix prefix' count template [] = Inr []"
| "instances_loop K py coordinator legacy name_prefix prefix' count template (idx # idxs) =
     (case generate_base_addresses K prefix' count idx of
        None \<Rightarrow> Inl KeyError
      | Some base_address \<Rightarrow>
          (case items_loop K py coordinator legacy name_prefix prefix' idx base_address template of
             Inl e \<Rightarrow> Inl e
           | Inr sensors \<Rightarrow>
               (case instances_loop K py coordinator legacy name_prefix prefix' count template idxs of
                  Inl e \<Rightarrow> Inl e
                | Inr rest \<Rightarrow> Inr (sensors @ rest))))"

text \<open>The sensors of one device type: \<open>idx\<close> runs over \<open>range(1, count + 1)\<close>.\<close>

definition device_sensors ::
  "'f module_consts \<Rightarrow> ('v, 'f) builtins \<Rightarrow> 'v coordinator \<Rightarrow> bool \<Rightarrow> string \<Rightarrow>
   string \<times> int \<times> (string \<times> 'f template_info) list \<Rightarrow> error + 'f LambdaSensor list" where
  "device_sensors K py coordinator legacy name_prefix triple =
     (case triple of (prefix', count, template) \<Rightarrow>
        instances_loop K py coordinator legacy name_prefix prefix' count template [1..count])"

text \<open>The loop over \<open>TEMPLATES\<close> (line 85).\<close>

fun templates_loop ::
  "'f module_consts \<Rightarrow> ('v, 'f) builtins \<Rightarrow> 'v coordinator \<Rightarrow> bool \<Rightarrow> string \<Rightarrow>
   (string \<times> int \<times> (string \<times> 'f template_info) list) list \<Rightarrow> error + 'f LambdaSensor list" where
  "templates_loop K py coordinator legacy name_prefix [] = Inr []"
| "templates_loop K py coordinator legacy name_prefix (triple # triples) =
     (case device_sensors K py coordinator legacy name_prefix triple of
        Inl e \<Rightarrow> Inl e
      | Inr sensors \<Rightarrow>
          (case templates_loop K py coordinator legacy name_prefix triples of
             Inl e \<Rightarrow> Inl e
           | Inr rest \<Rightarrow> Inr (sensors @ rest)))"

text \<open>The list \<open>TEMPLATES\<close> with the instance counts of the configuration (lines 64 to 83).\<close>

definition TEMPLATES ::
  "'f module_consts \<Rightarrow> entry_data \<Rightarrow> (string \<times> int \<times> (string \<times> 'f template_info) list) list" where
  "TEMPLATES K e =
     [(''hp'', get (num_hps e) 1, HP_SENSOR_TEMPLATES K),
      (''boil'', get (num_boil e) 1, BOIL_SENSOR_TEMPLATES K),
      (''buff'', get (num_buff e) 0, BUFF_SENSOR_TEMPLATES K),
      (''sol'', get (num_sol e) 0, SOL_SENSOR_TEMPLATES K),
      (''hc'', get (num_hc e) 1, HC_SENSOR_TEMPLATES K)]"

text \<open>One general sensor (lines 192 to 244): \<open>None\<close> when the register is disabled.\<close>

definition general_sensor ::
  "'f module_consts \<Rightarrow> 'v coordinator \<Rightarrow> bool \<Rightarrow> string \<Rightarrow> string \<times> 'f general_info \<Rightarrow>
   'f LambdaSensor option" where
  "general_sensor K coordinator legacy name_prefix item =
     (let sid = fst item; sensor_info = snd item; address' = g_address sensor_info
      in if is_register_disabled coordinator address' then None
         else
           (let device_class' =
                  infer_device_class (g_device_class sensor_info) (g_unit sensor_info);
                name' = (if legacy \<and> g_override_name sensor_info \<noteq> None
                         then the (g_override_name sensor_info) else g_name sensor_info);
                sensor_id_final = (if legacy \<and> g_override_name sensor_info \<noteq> None
                                   then the (g_override_name sensor_info) else sid);
                entity_id' = (if legacy then ''sensor.'' @ name_prefix @ ''_'' @ sensor_id_final
                              else ''sensor.'' @ sensor_id_final)
            in Some (LambdaSensor_init
                 sensor_id_final
                 name'
                 (get (g_unit sensor_info) [])
                 address'
                 (get (g_scale sensor_info) (float_one K))
                 (get (g_state_class sensor_info) [])
                 device_class'
                 (g_address sensor_info)
                 (g_data_type sensor_info)
                 (g_device_type sensor_info)
                 (get (g_txt_mapping sensor_info) False)
                 (g_precision sensor_info)
                 (Some entity_id')
                 None)))"

text \<open>The loop over \<open>SENSOR_TYPES.items()\<close> (line 191).\<close>

fun general_loop ::
  "'f module_consts \<Rightarrow> 'v coordinator \<Rightarrow> bool \<Rightarrow> string \<Rightarrow> (string \<times> 'f general_info) list \<Rightarrow>
   'f LambdaSensor list" where
  "general_loop K coordinator legacy name_prefix [] = []"
| "general_loop K coordinator legacy name_prefix (item # items) =
     (case general_sensor K coordinator legacy name_prefix item of
        None \<Rightarrow> general_loop K coordinator legacy name_prefix items
      | Some s \<Rightarrow> s # general_loop K coordinator legacy name_prefix items)"

text \<open>\<open>name_prefix\<close> (line 72).\<close>

definition name_prefix_of :: "entry_data \<Rightarrow> string" where
  "name_prefix_of e = replace '' '' [] (lower (get (name e) []))"

text \<open>
  \<open>async_setup_entry\<close>: \<open>coordinator_data\<close> is the coordinator found for the entry, if any.
  The result is the list handed to \<open>async_add_entities\<close>, \<open>None\<close> when the function
  returns without calling it.
\<close>

definition async_setup_entry ::
  "'f module_consts \<Rightarrow> ('v, 'f) builtins \<Rightarrow> 'v coordinator option \<Rightarrow> entry_data \<Rightarrow>
   error + 'f LambdaSensor list option" where
  "async_setup_entry K py coordinator_data e =
     (case coordinator_data of
        None \<Rightarrow> Inr None
      | Some coordinator \<Rightarrow>
          (let legacy = get (use_legacy_modbus_names e) False;
               name_prefix = name_prefix_of e
           in case templates_loop K py coordinator legacy name_prefix (TEMPLATES K e) of
                Inl err \<Rightarrow> Inl err
              | Inr sensors \<Rightarrow>
                  Inr (Some (sensors
                     @ general_loop K coordinator legacy name_prefix (SENSOR_TYPES K)))))"

section \<open>Names and ids of the entries\<close>

text \<open>The override of a data key, as setup reads it (lines 107 to 114).\<close>

definition override_name :: "'v coordinator \<Rightarrow> bool \<Rightarrow> string \<Rightarrow> string option" where
  "override_name coordinator legacy key =
     (if legacy \<and> sensor_overrides coordinator \<noteq> None
      then the (sensor_overrides coordinator) key
      else None)"

text \<open>
  What follows the name prefix in the ids of a templated sensor (lines 115 to 153): the
  override name when there is one, the data key otherwise.
\<close>

definition final_name :: "'v coordinator \<Rightarrow> bool \<Rightarrow> string \<Rightarrow> string" where
  "final_name coordinator legacy key =
     (if truthy (override_name coordinator legacy key)
      then the (override_name coordinator legacy key)
      else key)"

text \<open>What precedes it in the unique id: with legacy naming, the name prefix and \<open>_\<close>.\<close>

definition unique_id_prefix :: "bool \<Rightarrow> string \<Rightarrow> string" where
  "unique_id_prefix legacy name_prefix = (if legacy then name_prefix @ ''_'' else [])"

text \<open>The final sensor id of a general sensor (lines 210 to 219).\<close>

definition general_sensor_id :: "bool \<Rightarrow> string \<times> 'f general_info \<Rightarrow> string" where
  "general_sensor_id legacy item =
     (if legacy \<and> g_override_name (snd item) \<noteq> None
      then the (g_override_name (snd item))
      else fst item)"

text \<open>
  The data keys of the template entries of all instances, in the order in which setup
  visits them.
\<close>

definition data_keys :: "'f module_consts \<Rightarrow> entry_data \<Rightarrow> string list" where
  "data_keys K e =
     concat (map (\<lambda>(prefix', count, template).
               concat (map (\<lambda>idx. map (\<lambda>(sid, sensor_info). data_key prefix' idx sid) template)
                         [1..count]))
            (TEMPLATES K e))"

section \<open>Example inputs\<close>

text \<open>
  A small installation: the heat-pump template has a temperature entry and a state entry,
  the general sensors are an ambient temperature and a state sensor without device type.
  Base addresses are those of the integration: 1000 for the first heat pump, 100 apart.
\<close>

definition ex_flow_temp :: "real template_info" where
  "ex_flow_temp =
     \<lparr> t_relative_address = 5, t_name = ''Flow Temp'', t_unit = Some deg_C,
       t_scale = None, t_state_class = Some ''measurement'', t_device_class = None,
       t_data_type = Some ''int16'', t_device_type = None, t_txt_mapping = None,
       t_precision = Some 1 \<rparr>"

definition ex_operating_state :: "real template_info" where
  "ex_operating_state =
     \<lparr> t_relative_address = 3, t_name = ''Operating State'', t_unit = None,
       t_scale = None, t_state_class = None, t_device_class = None,
       t_data_type = Some ''uint16'', t_device_type = None, t_txt_mapping = Some True,
       t_precision = None \<rparr>"

definition ex_ambient_temp :: "real general_info" where
  "ex_ambient_temp =
     \<lparr> g_address = 2, g_name = ''Ambient Temp'', g_override_name = None,
       g_unit = Some deg_C, g_scale = None, g_state_class = None, g_device_class = None,
       g_data_type = None, g_device_type = Some ''main'', g_txt_mapping = None,
       g_precision = None \<rparr>"

definition ex_ambient_state :: "real general_info" where
  "ex_ambient_state =
     \<lparr> g_address = 1, g_name = ''Ambient State'', g_override_name = None,
       g_unit = None, g_scale = None, g_state_class = None, g_device_class = None,
       g_data_type = None, g_device_type = None, g_txt_mapping = Some True,
       g_precision = None \<rparr>"

definition ex_base_addresses :: "string \<Rightarrow> int \<Rightarrow> (int \<rightharpoonup> int)" where
  "ex_base_addresses prefix' count =
     (\<lambda>i. if 1 \<le> i \<and> i \<le> count then Some (1000 + (i - 1) * 100) else None)"

definition ex_globals :: "string \<rightharpoonup> global_object" where
  "ex_globals = [''HP_OPERATING_STATE'' \<mapsto> Dict [0 \<mapsto> ''STBY'', 1 \<mapsto> ''CH'', 2 \<mapsto> ''DHW'']]"

definition ex_consts :: "real module_consts" where
  "ex_consts =
     \<lparr> HP_SENSOR_TEMPLATES = [(''flow_temp'', ex_flow_temp), (''operating_state'', ex_operating_state)],
       BOIL_SENSOR_TEMPLATES = [],
       BUFF_SENSOR_TEMPLATES = [],
       SOL_SENSOR_TEMPLATES = [],
       HC_SENSOR_TEMPLATES = [],
       SENSOR_TYPES = [(''ambient_temp'', ex_ambient_temp), (''ambient_state'', ex_ambient_state)],
       generate_base_addresses = ex_base_addresses,
       float_one = 1,
       globals = ex_globals \<rparr>"

text \<open>
  The built-ins on the raw values of the examples, which are strings: \<open>float("2")\<close> is
  \<open>2.0\<close>, \<open>float("21.5")\<close> is \<open>21.5\<close>, every other text of the examples is no number;
  \<open>int\<close> truncates; the name templates of the examples have no replacement field.
\<close>

definition ex_py :: "(string, real) builtins" where
  "ex_py =
     \<lparr> py_float = (\<lambda>v. if v = ''2'' then Inr 2 else if v = ''21.5'' then Inr (43 / 2)
                        else Inl ValueError),
       py_int = (\<lambda>x. Inr (if x < 0 then \<lceil>x\<rceil> else \<lfloor>x\<rfloor>)),
       py_str = (\<lambda>v. v),
       py_format = (\<lambda>t i. Inr t) \<rparr>"

definition ex_entry :: entry_data where
  "ex_entry =
     \<lparr> num_hps = None, num_boil = None, num_buff = None, num_sol = None, num_hc = None,
       use_legacy_modbus_names = None, name = None \<rparr>"

definition ex_entry_legacy :: entry_data where
  "ex_entry_legacy =
     \<lparr> num_hps = Some 1, num_boil = Some 0, num_buff = Some 0, num_sol = Some 0,
       num_hc = Some 0, use_legacy_modbus_names = Some True, name = Some ''Lambda WP'' \<rparr>"

definition ex_coordinator :: "string coordinator" where
  "ex_coordinator =
     \<lparr> is_register_disabled = (\<lambda>a. False),
       sensor_overrides = None,
       data = Some [(''hp1_flow_temp'', ''21.5''), (''hp1_operating_state'', ''2''),
                    (''ambient_temp'', ''abc''), (''ambient_state'', ''2'')],
       entry = ex_entry \<rparr>"

definition ex_overrides :: "string \<rightharpoonup> string" where
  "ex_overrides =
     [''hp1_flow_temp'' \<mapsto> ''supply_temp'', ''hp1_operating_state'' \<mapsto> ''Status HP'',
      ''ambient_temp'' \<mapsto> ''outside'']"

definition ex_coordinator_legacy :: "string coordinator" where
  "ex_coordinator_legacy =
     \<lparr> is_register_disabled = (\<lambda>a. False),
       sensor_overrides = Some ex_overrides,
       data = Some [(''hp1_flow_temp'', ''21.5''), (''hp1_operating_state'', ''2'')],
       entry = ex_entry_legacy \<rparr>"

text \<open>The sensors setup makes of the examples.\<close>

definition ex_supply_temp_sensor :: "real LambdaSensor" where
  "ex_supply_temp_sensor =
     LambdaSensor_init ''hp1_flow_temp'' ''supply_temp'' deg_C 1005 1 ''measurement''
       (Some TEMPERATURE) 5 (Some ''int16'') (Some ''HP'') False (Some 1)
       (Some ''sensor.lambdawp_supply_temp'') (Some ''lambdawp_supply_temp'')"

definition ex_status_sensor :: "real LambdaSensor" where
  "ex_status_sensor =
     LambdaSensor_init ''hp1_operating_state'' ''Status HP'' [] 1003 1 [] None 3
       (Some ''uint16'') (Some ''HP'') True None
       (Some ''sensor.lambdawp_Status HP'') (Some ''lambdawp_Status HP'')"

definition ex_operating_state_sensor :: "real LambdaSensor" where
  "ex_operating_state_sensor =
     LambdaSensor_init ''hp1_operating_state'' ''HP1 Operating State'' [] 1003 1 [] None 3
       (Some ''uint16'') (Some ''HP'') True None
       (Some ''sensor.hp1_operating_state'') (Some ''hp1_operating_state'')"

definition ex_ambient_temp_sensor :: "real LambdaSensor" where
  "ex_ambient_temp_sensor =
     LambdaSensor_init ''ambient_temp'' ''Ambient Temp'' deg_C 2 1 [] (Some TEMPERATURE) 2
       None (Some ''main'') False None (Some ''sensor.lambdawp_ambient_temp'') None"

definition ex_ambient_state_sensor :: "real LambdaSensor" where
  "ex_ambient_state_sensor =
     LambdaSensor_init ''ambient_state'' ''Ambient State'' [] 1 1 [] None 1
       None None True None (Some ''sensor.ambient_state'') None"

text \<open>
  A coordinator whose registers 1003 and 1 are disabled, and a configuration with two heat
  pumps.
\<close>

definition ex_coordinator_disabled :: "string coordinator" where
  "ex_coordinator_disabled =
     \<lparr> is_register_disabled = (\<lambda>a. a = 1003 \<or> a = 1),
       sensor_overrides = None,
       data = None,
       entry = ex_entry \<rparr>"

definition ex_entry_two_hps :: entry_data where
  "ex_entry_two_hps =
     \<lparr> num_hps = Some 2, num_boil = None, num_buff = None, num_sol = None, num_hc = None,
       use_legacy_modbus_names = None, name = None \<rparr>"

text \<open>Legacy naming with the same override name for two sensors of heat pump 1.\<close>

definition ex_coordinator_clash :: "string coordinator" where
  "ex_coordinator_clash =
     \<lparr> is_register_disabled = (\<lambda>a. False),
       sensor_overrides =
         Some [''hp1_flow_temp'' \<mapsto> ''temp'', ''hp1_operating_state'' \<mapsto> ''temp''],
       data = None,
       entry = ex_entry_legacy \<rparr>"

text \<open>
  Raw values that are integers: \<open>float\<close> of an integer of magnitude \<open>2 ** 1024\<close> or
  more raises OverflowError; for a smaller one the example gives the integer itself, which
  is the float of the small integer the snapshot holds. For the flow temperature the
  snapshot holds \<open>10 ** 400\<close>.
\<close>

definition ex_py_int :: "(int, real) builtins" where
  "ex_py_int =
     \<lparr> py_float = (\<lambda>v. if 2 ^ 1024 \<le> \<bar>v\<bar> then Inl OverflowError else Inr (of_int v)),
       py_int = (\<lambda>x. Inr (if x < 0 then \<lceil>x\<rceil> else \<lfloor>x\<rfloor>)),
       py_str = str_int,
       py_format = (\<lambda>t i. Inr t) \<rparr>"

definition ex_coordinator_big :: "int coordinator" where
  "ex_coordinator_big =
     \<lparr> is_register_disabled = (\<lambda>a. False),
       sensor_overrides = None,
       data = Some [(''hp1_flow_temp'', 10 ^ 400), (''ambient_temp'', 21)],
       entry = ex_entry \<rparr>"

definition ex_flow_temp_sensor :: "real LambdaSensor" where
  "ex_flow_temp_sensor =
     LambdaSensor_init ''hp1_flow_temp'' ''HP1 Flow Temp'' deg_C 1005 1 ''measurement''
       (Some TEMPERATURE) 5 (Some ''int16'') (Some ''HP'') False (Some 1)
       (Some ''sensor.hp1_flow_temp'') (Some ''hp1_flow_temp'')"

section \<open>The examples, evaluated\<close>

lemma ex_setup:
  "async_setup_entry ex_consts ex_py (Some ex_coordinator) ex_entry =
   Inr (Some
     [LambdaSensor_init ''hp1_flow_temp'' ''HP1 Flow Temp'' deg_C 1005 1 ''measurement''
        (Some TEMPERATURE) 5 (Some ''int16'') (Some ''HP'') False (Some 1)
        (Some ''sensor.hp1_flow_temp'') (Some ''hp1_flow_temp''),
      ex_operating_state_sensor,
      LambdaSensor_init ''ambient_temp'' ''Ambient Temp'' deg_C 2 1 [] (Some TEMPERATURE) 2
        None (Some ''main'') False None (Some ''sensor.ambient_temp'') None,
      ex_ambient_state_sensor])"
  by code_simp

lemma ex_setup_legacy:
  "async_setup_entry ex_consts ex_py (Some ex_coordinator_legacy) ex_entry_legacy =
   Inr (Some
     [ex_supply_temp_sensor, ex_status_sensor, ex_ambient_temp_sensor,
      LambdaSensor_init ''ambient_state'' ''Ambient State'' [] 1 1 [] None 1
        None None True None (Some ''sensor.lambdawp_ambient_state'') None])"
  by code_simp

section \<open>Naming of templated sensors under an override\<close>

text \<open>
  C1, as the specification states it: with legacy naming and an override under the key
  \<open>{prefix}{index}_{sensor_id}\<close>, the override name is the display name and also the
  sensor id. The second half fails. With the override \<open>supply_temp\<close> for \<open>hp1_flow_temp\<close>
  the sensor is named \<open>supply_temp\<close> and keeps the sensor id \<open>hp1_flow_temp\<close>, the key of
  its value in the snapshot (line 117).
\<close>

theorem override_naming_counterexample:
  "map_sum id (map_option (map (\<lambda>s. (attr_name s, sensor_id s))))
     (async_setup_entry ex_consts ex_py (Some ex_coordinator_legacy) ex_entry_legacy)
   = Inr (Some [(''supply_temp'', ''hp1_flow_temp''), (''Status HP'', ''hp1_operating_state''),
                (''Ambient Temp'', ''ambient_temp''), (''Ambient State'', ''ambient_state'')])"
  by code_simp

text \<open>
  C1, amended: for every templated sensor generated with legacy naming enabled and a
  non-empty override under the key \<open>{prefix}{index}_{sensor_id}\<close>, the override name is
  the display name, the sensor id stays \<open>{prefix}{index}_{sensor_id}\<close>, the entity id is
  \<open>sensor.{name_prefix}_{override}\<close> and the unique id is \<open>{name_prefix}_{override}\<close>.
\<close>

theorem override_naming:
  assumes "legacy" and "sensor_overrides c = Some tbl"
    and "tbl (data_key p idx sid) = Some ov" and "ov \<noteq> []"
    and "\<not> is_register_disabled c (base + t_relative_address info)"
  shows "map_sum id (map_option (\<lambda>s. (attr_name s, sensor_id s, entity_id s, attr_unique_id s)))
           (template_sensor K py c legacy np p idx base (sid, info))
         = Inr (Some (ov, data_key p idx sid, ''sensor.'' @ np @ ''_'' @ ov, np @ ''_'' @ ov))"
  using assms
  by (simp add: template_sensor_def template_naming_def truthy_def LambdaSensor_init_def Let_def)

theorem override_naming_witness:
  "map_sum id (map_option (\<lambda>s. (attr_name s, sensor_id s, entity_id s, attr_unique_id s)))
     (template_sensor ex_consts ex_py ex_coordinator_legacy True ''lambdawp'' ''hp'' 1 1000
        (''flow_temp'', ex_flow_temp))
   = Inr (Some (''supply_temp'', ''hp1_flow_temp'', ''sensor.lambdawp_supply_temp'',
                ''lambdawp_supply_temp''))"
proof -
  have k: "data_key ''hp'' 1 ''flow_temp'' = ''hp1_flow_temp''" by code_simp
  have h2: "sensor_overrides ex_coordinator_legacy = Some ex_overrides"
    by (simp add: ex_coordinator_legacy_def)
  have h3: "ex_overrides (data_key ''hp'' 1 ''flow_temp'') = Some ''supply_temp''"
    unfolding k by (simp add: ex_overrides_def)
  have h5: "\<not> is_register_disabled ex_coordinator_legacy (1000 + t_relative_address ex_flow_temp)"
    by (simp add: ex_coordinator_legacy_def)
  show ?thesis
    using override_naming [OF TrueI h2 h3 _ h5, of ex_consts ex_py "''lambdawp''"] k by simp
qed

section \<open>What a state sensor exposes\<close>

text \<open>
  C9: a sensor constructed with \<open>txt_mapping\<close> true exposes no native unit of
  measurement, no device class, no state class and no suggested display precision,
  whatever unit, device class, state class and precision the constructor is given.
\<close>

theorem state_sensor_exposes_nothing:
  assumes "txt_mapping'"
  shows "attr_native_unit_of_measurement
           (LambdaSensor_init sid nm un ad sc stc dc ra dt dty txt_mapping' pr eid uid) = None
       \<and> attr_device_class
           (LambdaSensor_init sid nm un ad sc stc dc ra dt dty txt_mapping' pr eid uid) = None
       \<and> attr_state_class
           (LambdaSensor_init sid nm un ad sc stc dc ra dt dty txt_mapping' pr eid uid) = None
       \<and> attr_suggested_display_precision
           (LambdaSensor_init sid nm un ad sc stc dc ra dt dty txt_mapping' pr eid uid) = None"
  using assms by (simp add: LambdaSensor_init_def)

theorem state_sensor_exposes_nothing_witness:
  "attr_native_unit_of_measurement
     (LambdaSensor_init ''hp1_x'' ''HP1 X'' deg_C 1005 (1::real) ''measurement''
        (Some TEMPERATURE) 5 None (Some ''HP'') True (Some 1) None None) = None
   \<and> attr_device_class
     (LambdaSensor_init ''hp1_x'' ''HP1 X'' deg_C 1005 (1::real) ''measurement''
        (Some TEMPERATURE) 5 None (Some ''HP'') True (Some 1) None None) = None
   \<and> attr_state_class
     (LambdaSensor_init ''hp1_x'' ''HP1 X'' deg_C 1005 (1::real) ''measurement''
        (Some TEMPERATURE) 5 None (Some ''HP'') True (Some 1) None None) = None
   \<and> attr_suggested_display_precision
     (LambdaSensor_init ''hp1_x'' ''HP1 X'' deg_C 1005 (1::real) ''measurement''
        (Some TEMPERATURE) 5 None (Some ''HP'') True (Some 1) None None) = None"
  by (rule state_sensor_exposes_nothing) simp

section \<open>Default instance counts\<close>

text \<open>
  C6, as the specification states it: an omitted instance count defaults to 0 for heat
  pumps, boilers, buffers and solar modules, so that no sensor of an omitted device type
  is generated. With every count omitted the counts are 1, 1, 0, 0 and 1, and the
  heat-pump template yields the sensors of heat pump 1.
\<close>

theorem default_counts_counterexample:
  "num_hps ex_entry = None \<and> num_boil ex_entry = None
   \<and> map (\<lambda>(p, n, t). (p, n)) (TEMPLATES ex_consts ex_entry)
       = [(''hp'', 1), (''boil'', 1), (''buff'', 0), (''sol'', 0), (''hc'', 1)]
   \<and> map_sum id (map_option (map sensor_id))
       (async_setup_entry ex_consts ex_py (Some ex_coordinator) ex_entry)
       = Inr (Some [''hp1_flow_temp'', ''hp1_operating_state'', ''ambient_temp'', ''ambient_state''])"
  by code_simp

lemma name_prefix_of_counts [simp]:
  "name_prefix_of (e\<lparr>num_hps := a\<rparr>) = name_prefix_of e"
  "name_prefix_of (e\<lparr>num_boil := a\<rparr>) = name_prefix_of e"
  "name_prefix_of (e\<lparr>num_buff := a\<rparr>) = name_prefix_of e"
  "name_prefix_of (e\<lparr>num_sol := a\<rparr>) = name_prefix_of e"
  by (simp_all add: name_prefix_of_def)

text \<open>
  C6, amended: when the configuration omits an instance count, setup runs as with
  \<open>num_hps = 1\<close>, \<open>num_boil = 1\<close>, \<open>num_buff = 0\<close> and \<open>num_sol = 0\<close>; so no sensors of
  an omitted buffer or solar device type are generated, while an omitted heat-pump or
  boiler count stands for one instance.
\<close>

theorem default_counts:
  "(num_hps e = None \<longrightarrow>
      async_setup_entry K py cd e = async_setup_entry K py cd (e\<lparr>num_hps := Some 1\<rparr>))
   \<and> (num_boil e = None \<longrightarrow>
      async_setup_entry K py cd e = async_setup_entry K py cd (e\<lparr>num_boil := Some 1\<rparr>))
   \<and> (num_buff e = None \<longrightarrow>
      async_setup_entry K py cd e = async_setup_entry K py cd (e\<lparr>num_buff := Some 0\<rparr>)
      \<and> device_sensors K py c legacy np (''buff'', get (num_buff e) 0, BUFF_SENSOR_TEMPLATES K) = Inr [])
   \<and> (num_sol e = None \<longrightarrow>
      async_setup_entry K py cd e = async_setup_entry K py cd (e\<lparr>num_sol := Some 0\<rparr>)
      \<and> device_sensors K py c legacy np (''sol'', get (num_sol e) 0, SOL_SENSOR_TEMPLATES K) = Inr [])"
  by (cases cd) (simp_all add: async_setup_entry_def TEMPLATES_def get_def device_sensors_def)

theorem default_counts_witness:
  "async_setup_entry ex_consts ex_py (Some ex_coordinator) ex_entry
     = async_setup_entry ex_consts ex_py (Some ex_coordinator) (ex_entry\<lparr>num_hps := Some 1\<rparr>)
   \<and> async_setup_entry ex_consts ex_py (Some ex_coordinator) ex_entry
     = async_setup_entry ex_consts ex_py (Some ex_coordinator) (ex_entry\<lparr>num_boil := Some 1\<rparr>)
   \<and> async_setup_entry ex_consts ex_py (Some ex_coordinator) ex_entry
     = async_setup_entry ex_consts ex_py (Some ex_coordinator) (ex_entry\<lparr>num_buff := Some 0\<rparr>)
   \<and> device_sensors ex_consts ex_py ex_coordinator False []
        (''buff'', get (num_buff ex_entry) 0, BUFF_SENSOR_TEMPLATES ex_consts) = Inr []
   \<and> async_setup_entry ex_consts ex_py (Some ex_coordinator) ex_entry
     = async_setup_entry ex_consts ex_py (Some ex_coordinator) (ex_entry\<lparr>num_sol := Some 0\<rparr>)
   \<and> device_sensors ex_consts ex_py ex_coordinator False []
        (''sol'', get (num_sol ex_entry) 0, SOL_SENSOR_TEMPLATES ex_consts) = Inr []"
proof -
  have h: "num_hps ex_entry = None" "num_boil ex_entry = None" "num_buff ex_entry = None"
    "num_sol ex_entry = None"
    by (simp_all add: ex_entry_def)
  show ?thesis
    using default_counts [of ex_entry ex_consts ex_py "Some ex_coordinator" ex_coordinator False "[]"] h
    by blast
qed

section \<open>Identifiers of general sensors\<close>

lemma general_sensor_Some:
  assumes "general_sensor K c legacy np item = Some s"
  shows "\<exists>a b u d sc stc dc ra dt dty txt pr.
           s = LambdaSensor_init a b u d sc stc dc ra dt dty txt pr
                 (Some (if legacy then ''sensor.'' @ np @ ''_'' @ a else ''sensor.'' @ a)) None"
proof (cases "is_register_disabled c (g_address (snd item))")
  case True
  with assms show ?thesis by (simp add: general_sensor_def)
next
  case False
  with assms show ?thesis
    unfolding general_sensor_def Let_def by (simp only: if_False option.inject) blast
qed

lemma init_without_unique_id:
  assumes "s = LambdaSensor_init a b u d sc stc dc ra dt dty txt pr (Some e) None" and "e \<noteq> []"
  shows "sensor_id s = a" and "entity_id s = e" and "attr_unique_id s = a"
    and "s = LambdaSensor_init (sensor_id s) (attr_name s) (unit s) (address s) (scale s)
               (state_class s) (device_class s) (relative_address s) (data_type s)
               (device_type s) (txt_mapping s) (precision s) (Some (entity_id s)) None"
  using assms by (simp_all add: LambdaSensor_init_def truthy_def)

lemma general_sensor_ids:
  assumes "general_sensor K c legacy np item = Some s"
  shows "s = LambdaSensor_init (sensor_id s) (attr_name s) (unit s) (address s) (scale s)
               (state_class s) (device_class s) (relative_address s) (data_type s)
               (device_type s) (txt_mapping s) (precision s) (Some (entity_id s)) None
       \<and> attr_unique_id s = sensor_id s
       \<and> (legacy \<longrightarrow> entity_id s = ''sensor.'' @ np @ ''_'' @ sensor_id s
            \<and> attr_unique_id s \<noteq> drop (length ''sensor.'') (entity_id s))
       \<and> (\<not> legacy \<longrightarrow> entity_id s = ''sensor.'' @ sensor_id s)"
proof -
  from general_sensor_Some [OF assms] obtain a b u d sc stc dc ra dt dty tm prc where
    s: "s = LambdaSensor_init a b u d sc stc dc ra dt dty tm prc
              (Some (if legacy then ''sensor.'' @ np @ ''_'' @ a else ''sensor.'' @ a)) None"
    by blast
  have ne: "(if legacy then ''sensor.'' @ np @ ''_'' @ a else ''sensor.'' @ a) \<noteq> []"
    by simp
  note f = init_without_unique_id [OF s ne]
  have "attr_unique_id s = sensor_id s" using f(1,3) by simp
  moreover have "legacy \<longrightarrow> entity_id s = ''sensor.'' @ np @ ''_'' @ sensor_id s
      \<and> attr_unique_id s \<noteq> drop (length ''sensor.'') (entity_id s)"
    using f(1,2,3) by simp
  moreover have "\<not> legacy \<longrightarrow> entity_id s = ''sensor.'' @ sensor_id s"
    using f(1,2) by simp
  ultimately show ?thesis using f(4) by blast
qed

text \<open>
  C10: a general sensor is built by the constructor without a unique id, so its unique
  id is its final sensor id; with legacy naming the entity id is
  \<open>sensor.{name_prefix}_{sensor_id}\<close>, and the unique id, which has no name prefix, is
  not the entity id without its leading \<open>sensor.\<close>.
\<close>

theorem general_unique_id:
  assumes "s \<in> set (general_loop K c legacy np items)"
  shows "s = LambdaSensor_init (sensor_id s) (attr_name s) (unit s) (address s) (scale s)
               (state_class s) (device_class s) (relative_address s) (data_type s)
               (device_type s) (txt_mapping s) (precision s) (Some (entity_id s)) None
       \<and> attr_unique_id s = sensor_id s
       \<and> (legacy \<longrightarrow> entity_id s = ''sensor.'' @ np @ ''_'' @ sensor_id s
            \<and> attr_unique_id s \<noteq> drop (length ''sensor.'') (entity_id s))"
  using assms
proof (induction items)
  case Nil
  then show ?case by simp
next
  case (Cons item items)
  show ?case
  proof (cases "general_sensor K c legacy np item")
    case None
    with Cons show ?thesis by simp
  next
    case (Some x)
    with Cons.prems have "s = x \<or> s \<in> set (general_loop K c legacy np items)" by simp
    then show ?thesis
    proof
      assume "s = x"
      with Some general_sensor_ids [of K c legacy np item s] show ?thesis by blast
    next
      assume "s \<in> set (general_loop K c legacy np items)"
      then show ?thesis by (rule Cons.IH)
    qed
  qed
qed

theorem general_unique_id_witness:
  "attr_unique_id ex_ambient_temp_sensor = sensor_id ex_ambient_temp_sensor
   \<and> entity_id ex_ambient_temp_sensor = ''sensor.'' @ ''lambdawp'' @ ''_'' @ sensor_id ex_ambient_temp_sensor
   \<and> attr_unique_id ex_ambient_temp_sensor \<noteq> drop (length ''sensor.'') (entity_id ex_ambient_temp_sensor)"
proof -
  have "ex_ambient_temp_sensor
          \<in> set (general_loop ex_consts ex_coordinator_legacy True ''lambdawp'' (SENSOR_TYPES ex_consts))"
    by code_simp
  from general_unique_id [OF this] show ?thesis by simp
qed

section \<open>Reading the name\<close>

lemma name_property_override:
  assumes "get (use_legacy_modbus_names (entry c)) False" and "sensor_overrides c = Some tbl"
    and "tbl (sensor_id s) = Some ov" and "ov \<noteq> []"
  shows "name_property c s = (ov, s\<lparr>sensor_id := ov\<rparr>)"
  using assms by (simp add: name_property_def truthy_def)

lemma name_property_no_override:
  assumes "sensor_overrides c = Some tbl" and "\<not> truthy (tbl (sensor_id s))"
  shows "name_property c s = (attr_name s, s)"
  using assms by (simp add: name_property_def)

text \<open>
  C3: for a sensor with legacy naming whose sensor id has an override in the table, one
  read of the name sets the sensor id to the override name and reports the override name,
  and every later read with the same table changes nothing and reports the override name.
  The code loses the override: the first read overwrites the sensor id, which is its own
  lookup key (line 358), so the next read looks up the override name, finds nothing and
  returns the stored display name (line 360). The general sensor \<open>ambient_temp\<close> of the
  legacy setup, displayed as \<open>Ambient Temp\<close>, has the override \<open>outside\<close>: the first
  read reports \<open>outside\<close> and sets the sensor id to \<open>outside\<close>, the second read reports
  \<open>Ambient Temp\<close>.
\<close>

theorem name_override_lost:
  "sensor_id ex_ambient_temp_sensor = ''ambient_temp''
   \<and> ex_overrides ''ambient_temp'' = Some ''outside''
   \<and> fst (name_property ex_coordinator_legacy ex_ambient_temp_sensor) = ''outside''
   \<and> sensor_id (snd (name_property ex_coordinator_legacy ex_ambient_temp_sensor)) = ''outside''
   \<and> fst (name_property ex_coordinator_legacy
            (snd (name_property ex_coordinator_legacy ex_ambient_temp_sensor))) = ''Ambient Temp''"
  by code_simp

section \<open>Reading the value\<close>

lemma is_state_sensor_init [simp]:
  "is_state_sensor (LambdaSensor_init a b u d sc stc dc ra dt dty tm prc e uid) = tm"
  by (simp add: LambdaSensor_init_def)

lemma native_value_entry:
  assumes "data c = Some d" and "map_of d (sensor_id s) = Some v"
  shows "native_value py glob c s =
           (if is_state_sensor s then
              (case int_float py v of
                 Inl e \<Rightarrow>
                   if e = ValueError \<or> e = TypeError
                   then Inr (Some (Label (''Unknown state ('' @ py_str py v @ '')'')))
                   else Inl e
               | Inr numeric_value \<Rightarrow>
                   (case mapping_name s of
                      Inl e \<Rightarrow> Inl e
                    | Inr mname \<Rightarrow> Inr (Some (Label (lookup_state glob mname numeric_value)))))
            else
              (case py_float py v of
                 Inr x \<Rightarrow> Inr (Some (PhysicalValue x))
               | Inl e \<Rightarrow> if e = ValueError \<or> e = TypeError then Inr None else Inl e))"
proof (cases d)
  case Nil
  with assms show ?thesis by simp
next
  case (Cons kv kvs)
  with assms show ?thesis by (simp add: native_value_def)
qed

lemma native_value_no_entry:
  assumes "data c = None \<or> data c = Some [] \<or> (\<exists>d. data c = Some d \<and> map_of d (sensor_id s) = None)"
  shows "native_value py glob c s = Inr None"
  using assms by (auto simp add: native_value_def split: option.splits list.splits)

text \<open>
  C8, as the specification states it: a sensor that is no state sensor returns no value,
  and raises nothing, whenever its raw value fails the coercion to a float. The accessor
  catches ValueError and TypeError only (line 415). For the raw value \<open>10 ** 400\<close>,
  \<open>float\<close> fails with OverflowError, which reaches the caller.
\<close>

theorem native_value_overflow_counterexample:
  "map_of (the (data ex_coordinator_big)) (sensor_id ex_flow_temp_sensor) = Some (10 ^ 400)
   \<and> \<not> is_state_sensor ex_flow_temp_sensor
   \<and> py_float ex_py_int (10 ^ 400) = Inl OverflowError
   \<and> native_value ex_py_int ex_globals ex_coordinator_big ex_flow_temp_sensor = Inl OverflowError"
  by (simp add: ex_coordinator_big_def ex_flow_temp_sensor_def LambdaSensor_init_def
      ex_py_int_def native_value_def)

text \<open>
  C8, amended: the value accessor returns no value, and raises nothing, exactly when the
  snapshot is absent or empty, when the snapshot has no entry for the sensor id, or when
  the sensor is no state sensor and the coercion of its raw value to a float fails with
  ValueError or TypeError; a coercion that fails with another exception passes that
  exception on; when the coercion succeeds for such a sensor, the float is returned as
  parsed, whatever the scale of the sensor.
\<close>

theorem native_value_absent:
  "(native_value py glob c s = Inr None \<longleftrightarrow>
      data c = None \<or> data c = Some []
      \<or> (\<exists>d. data c = Some d \<and> map_of d (sensor_id s) = None)
      \<or> (\<not> is_state_sensor s
          \<and> (\<exists>d v. data c = Some d \<and> map_of d (sensor_id s) = Some v
                \<and> (py_float py v = Inl ValueError \<or> py_float py v = Inl TypeError))))
   \<and> (\<forall>d v x k. \<not> is_state_sensor s \<longrightarrow> data c = Some d \<longrightarrow> map_of d (sensor_id s) = Some v
          \<longrightarrow> py_float py v = Inr x
          \<longrightarrow> native_value py glob c (s\<lparr>scale := k\<rparr>) = Inr (Some (PhysicalValue x)))
   \<and> (\<forall>d v err. \<not> is_state_sensor s \<longrightarrow> data c = Some d \<longrightarrow> map_of d (sensor_id s) = Some v
          \<longrightarrow> py_float py v = Inl err \<longrightarrow> err \<noteq> ValueError \<longrightarrow> err \<noteq> TypeError
          \<longrightarrow> native_value py glob c s = Inl err)"
proof (intro conjI allI impI)
  show "native_value py glob c s = Inr None \<longleftrightarrow>
      data c = None \<or> data c = Some []
      \<or> (\<exists>d. data c = Some d \<and> map_of d (sensor_id s) = None)
      \<or> (\<not> is_state_sensor s
          \<and> (\<exists>d v. data c = Some d \<and> map_of d (sensor_id s) = Some v
                \<and> (py_float py v = Inl ValueError \<or> py_float py v = Inl TypeError)))"
  proof (cases "data c = None \<or> data c = Some []
      \<or> (\<exists>d. data c = Some d \<and> map_of d (sensor_id s) = None)")
    case True
    then show ?thesis using native_value_no_entry [of c s py glob] by blast
  next
    case False
    then obtain d v where d: "data c = Some d" and v: "map_of d (sensor_id s) = Some v"
      by (cases "data c") auto
    show ?thesis
      using False d v
      by (auto simp add: native_value_entry [OF d v] split: sum.splits)
  qed
next
  fix d v x k
  assume "\<not> is_state_sensor s" and d: "data c = Some d"
    and v: "map_of d (sensor_id s) = Some v" and x: "py_float py v = Inr x"
  then show "native_value py glob c (s\<lparr>scale := k\<rparr>) = Inr (Some (PhysicalValue x))"
    using native_value_entry [of c d "s\<lparr>scale := k\<rparr>" v py glob] by simp
next
  fix d v err
  assume "\<not> is_state_sensor s" and d: "data c = Some d"
    and v: "map_of d (sensor_id s) = Some v" and "py_float py v = Inl err"
    and "err \<noteq> ValueError" and "err \<noteq> TypeError"
  then show "native_value py glob c s = Inl err"
    by (simp add: native_value_entry [OF d v])
qed

theorem native_value_absent_witness:
  "native_value ex_py ex_globals ex_coordinator
     (LambdaSensor_init ''ambient_temp'' ''Ambient Temp'' deg_C 2 1 [] (Some TEMPERATURE) 2
        None (Some ''main'') False None (Some ''sensor.ambient_temp'') None) = Inr None
   \<and> native_value ex_py ex_globals ex_coordinator
       ((LambdaSensor_init ''hp1_flow_temp'' ''HP1 Flow Temp'' deg_C 1005 1 ''measurement''
          (Some TEMPERATURE) 5 (Some ''int16'') (Some ''HP'') False (Some 1)
          (Some ''sensor.hp1_flow_temp'') (Some ''hp1_flow_temp''))\<lparr>scale := 10\<rparr>)
     = Inr (Some (PhysicalValue (43 / 2)))"
proof -
  let ?a = "LambdaSensor_init ''ambient_temp'' ''Ambient Temp'' deg_C 2 (1::real) []
        (Some TEMPERATURE) 2 None (Some ''main'') False None (Some ''sensor.ambient_temp'') None"
  let ?f = "LambdaSensor_init ''hp1_flow_temp'' ''HP1 Flow Temp'' deg_C 1005 (1::real)
          ''measurement'' (Some TEMPERATURE) 5 (Some ''int16'') (Some ''HP'') False (Some 1)
          (Some ''sensor.hp1_flow_temp'') (Some ''hp1_flow_temp'')"
  let ?d = "[(''hp1_flow_temp'', ''21.5''), (''hp1_operating_state'', ''2''),
             (''ambient_temp'', ''abc''), (''ambient_state'', ''2'')]"
  have d: "data ex_coordinator = Some ?d" by (simp add: ex_coordinator_def)
  have a1: "\<not> is_state_sensor ?a" by simp
  have a2: "map_of ?d (sensor_id ?a) = Some ''abc''" by (simp add: LambdaSensor_init_def)
  have a3: "py_float ex_py ''abc'' = Inl ValueError" by (simp add: ex_py_def)
  have f1: "\<not> is_state_sensor ?f" by simp
  have f2: "map_of ?d (sensor_id ?f) = Some ''21.5''" by (simp add: LambdaSensor_init_def)
  have f3: "py_float ex_py ''21.5'' = Inr (43 / 2)" by (simp add: ex_py_def)
  have "native_value ex_py ex_globals ex_coordinator ?a = Inr None"
    using native_value_absent [of ex_py ex_globals ex_coordinator ?a] d a1 a2 a3 by blast
  moreover have "native_value ex_py ex_globals ex_coordinator (?f\<lparr>scale := 10\<rparr>)
      = Inr (Some (PhysicalValue (43 / 2)))"
    using native_value_absent [of ex_py ex_globals ex_coordinator ?f] d f1 f2 f3 by blast
  ultimately show ?thesis by (rule conjI)
qed

section \<open>State sensors: the mapping table\<close>

lemma state_value_label:
  assumes "data c = Some d" and "map_of d (sensor_id s) = Some v" and "is_state_sensor s"
    and "int_float py v = Inr n" and "device_type s = Some dt"
  shows "\<exists>mname. mapping_name s = Inr mname
           \<and> native_value py glob c s = Inr (Some (Label (lookup_state glob mname n)))"
  using assms by (simp add: native_value_entry mapping_name_def Let_def)

lemma lookup_state_cases:
  "glob mname = None \<Longrightarrow>
     lookup_state glob mname n = ''Unknown mapping for state ('' @ str_int n @ '')''"
  "glob mname = Some Object \<Longrightarrow>
     lookup_state glob mname n = ''Error loading mappings ('' @ str_int n @ '')''"
  "glob mname = Some (Dict m) \<Longrightarrow>
     lookup_state glob mname n = get (m n) (''Unknown state ('' @ str_int n @ '')'')"
  by (simp_all add: lookup_state_def)

text \<open>
  C4: for a state sensor whose raw value coerces to an integer code the value accessor
  never raises. The code breaks this for a sensor without device type, which the general
  sensors may be (line 239): the name of the mapping table is built with
  \<open>self._device_type.upper()\<close> before the \<open>try\<close> (lines 382 to 385), and the
  AttributeError reaches the caller. The general state sensor \<open>ambient_state\<close> of the
  examples has no device type and the raw value \<open>"2"\<close>.
\<close>

theorem state_value_raises:
  "map_of (the (data ex_coordinator)) (sensor_id ex_ambient_state_sensor) = Some ''2''
   \<and> int_float ex_py ''2'' = Inr 2
   \<and> is_state_sensor ex_ambient_state_sensor
   \<and> device_type ex_ambient_state_sensor = None
   \<and> native_value ex_py ex_globals ex_coordinator ex_ambient_state_sensor = Inl AttributeError"
  by (simp add: ex_coordinator_def ex_ambient_state_sensor_def LambdaSensor_init_def int_float_def
      ex_py_def native_value_def mapping_name_def truthy_def)

text \<open>
  C5: the lookup key drops the leading device-type token with its index when, and only
  when, the display name begins with that token. The code drops the first word of the
  name whenever the token occurs anywhere in it (line 378 tests \<open>in\<close>), against its own
  comment (lines 375 to 379). The heat-pump state sensor renamed \<open>Status HP\<close> by an
  override loses \<open>Status\<close> and gets the key \<open>HP_HP\<close>, not \<open>HP_STATUS_HP\<close>; the name
  \<open>HP1 Operating State\<close> gives \<open>HP_OPERATING_STATE\<close>.
\<close>

theorem mapping_name_first_word:
  "attr_name ex_status_sensor = ''Status HP''
   \<and> device_type ex_status_sensor = Some ''HP''
   \<and> \<not> prefix ''HP'' (attr_name ex_status_sensor)
   \<and> mapping_name ex_status_sensor = Inr ''HP_HP''
   \<and> mapping_name ex_operating_state_sensor = Inr ''HP_OPERATING_STATE''"
  by code_simp

section \<open>One sensor for every enabled register\<close>

lemma template_naming_sensor_id:
  assumes "p = ''hc'' \<and> t_device_type info = Some ''Climate''
             \<longrightarrow> \<not> isl (py_format py (t_name info) idx)"
  shows "\<exists>nm eid uid.
           template_naming py c legacy np p idx sid info = Inr (nm, data_key p idx sid, eid, uid)"
proof (cases "p = ''hc'' \<and> t_device_type info = Some ''Climate''")
  case False
  then show ?thesis by (auto simp add: template_naming_def Let_def)
next
  case True
  with assms obtain nm where "py_format py (t_name info) idx = Inr nm"
    by (cases "py_format py (t_name info) idx") auto
  with True show ?thesis by (simp add: template_naming_def Let_def)
qed

lemma attr_unique_id_init:
  "attr_unique_id (LambdaSensor_init a b u d sc stc dc ra dt dty tm prc e (Some uid))
     = (if uid \<noteq> [] then uid else a)"
  by (simp add: LambdaSensor_init_def truthy_def)

lemma attr_unique_id_init_None:
  "attr_unique_id (LambdaSensor_init a b u d sc stc dc ra dt dty tm prc e None) = a"
  by (simp add: LambdaSensor_init_def truthy_def)

lemma address_init [simp]:
  "address (LambdaSensor_init a b u d sc stc dc ra dt dty tm prc e uid) = d"
  "sensor_id (LambdaSensor_init a b u d sc stc dc ra dt dty tm prc e uid) = a"
  by (simp_all add: LambdaSensor_init_def)

lemma template_sensor_disabled:
  assumes "is_register_disabled c (base + t_relative_address info)"
  shows "template_sensor K py c legacy np p idx base (sid, info) = Inr None"
  using assms by (simp add: template_sensor_def)

lemma template_sensor_enabled:
  assumes "p = ''hc'' \<and> t_device_type info = Some ''Climate''
             \<longrightarrow> \<not> isl (py_format py (t_name info) idx)"
    and "\<not> is_register_disabled c (base + t_relative_address info)"
  shows "\<exists>s. template_sensor K py c legacy np p idx base (sid, info) = Inr (Some s)
             \<and> sensor_id s = data_key p idx sid
             \<and> address s = base + t_relative_address info"
proof -
  from template_naming_sensor_id [OF assms(1)] obtain nm eid uid where
    "template_naming py c legacy np p idx sid info = Inr (nm, data_key p idx sid, eid, uid)"
    by blast
  with assms(2) show ?thesis by (simp add: template_sensor_def Let_def)
qed

lemma items_loop_result:
  assumes "\<forall>(sid, info)\<in>set items. p = ''hc'' \<and> t_device_type info = Some ''Climate''
             \<longrightarrow> \<not> isl (py_format py (t_name info) idx)"
  shows "\<exists>sensors. items_loop K py c legacy np p idx base items = Inr sensors
           \<and> map (\<lambda>s. (sensor_id s, address s)) sensors
               = map (\<lambda>(sid, info). (data_key p idx sid, base + t_relative_address info))
                   (filter (\<lambda>(sid, info). \<not> is_register_disabled c (base + t_relative_address info))
                      items)"
  using assms
proof (induction items)
  case Nil
  then show ?case by simp
next
  case (Cons item items)
  obtain sid info where item: "item = (sid, info)" by (cases item)
  from Cons.prems item have fmt: "p = ''hc'' \<and> t_device_type info = Some ''Climate''
             \<longrightarrow> \<not> isl (py_format py (t_name info) idx)"
    by simp
  from Cons.IH Cons.prems obtain sensors where
    r: "items_loop K py c legacy np p idx base items = Inr sensors"
    "map (\<lambda>s. (sensor_id s, address s)) sensors
               = map (\<lambda>(sid, info). (data_key p idx sid, base + t_relative_address info))
                   (filter (\<lambda>(sid, info). \<not> is_register_disabled c (base + t_relative_address info))
                      items)"
    by auto
  show ?case
  proof (cases "is_register_disabled c (base + t_relative_address info)")
    case True
    from template_sensor_disabled [OF True, of K py legacy np p idx sid]
    show ?thesis using item r True by simp
  next
    case False
    from template_sensor_enabled [OF fmt False, of K legacy np sid] obtain s where
      "template_sensor K py c legacy np p idx base (sid, info) = Inr (Some s)"
      "sensor_id s = data_key p idx sid" "address s = base + t_relative_address info"
      by blast
    then show ?thesis using item r False by simp
  qed
qed

lemma instances_loop_result:
  assumes "\<forall>idx\<in>set idxs. generate_base_addresses K p count idx \<noteq> None"
    and "\<forall>(sid, info)\<in>set template. \<forall>idx\<in>set idxs.
           p = ''hc'' \<and> t_device_type info = Some ''Climate''
             \<longrightarrow> \<not> isl (py_format py (t_name info) idx)"
  shows "\<exists>sensors. instances_loop K py c legacy np p count template idxs = Inr sensors
           \<and> map (\<lambda>s. (sensor_id s, address s)) sensors
               = concat (map (\<lambda>idx.
                   map (\<lambda>(sid, info).
                          (data_key p idx sid,
                           the (generate_base_addresses K p count idx) + t_relative_address info))
                     (filter (\<lambda>(sid, info). \<not> is_register_disabled c
                          (the (generate_base_addresses K p count idx) + t_relative_address info))
                        template)) idxs)"
  using assms
proof (induction idxs)
  case Nil
  then show ?case by simp
next
  case (Cons idx idxs)
  from Cons.prems(1) obtain base where base: "generate_base_addresses K p count idx = Some base"
    by auto
  from Cons.prems(2) have "\<forall>(sid, info)\<in>set template.
           p = ''hc'' \<and> t_device_type info = Some ''Climate''
             \<longrightarrow> \<not> isl (py_format py (t_name info) idx)"
    by auto
  from items_loop_result [OF this, of K c legacy np base] obtain s1 where
    s1: "items_loop K py c legacy np p idx base template = Inr s1"
    "map (\<lambda>s. (sensor_id s, address s)) s1
       = map (\<lambda>(sid, info). (data_key p idx sid, base + t_relative_address info))
           (filter (\<lambda>(sid, info). \<not> is_register_disabled c (base + t_relative_address info))
              template)"
    by blast
  have "\<forall>idx\<in>set idxs. generate_base_addresses K p count idx \<noteq> None"
    and "\<forall>(sid, info)\<in>set template. \<forall>idx\<in>set idxs.
           p = ''hc'' \<and> t_device_type info = Some ''Climate''
             \<longrightarrow> \<not> isl (py_format py (t_name info) idx)"
    using Cons.prems by auto
  from Cons.IH [OF this] obtain s2 where
    s2: "instances_loop K py c legacy np p count template idxs = Inr s2"
    "map (\<lambda>s. (sensor_id s, address s)) s2
               = concat (map (\<lambda>idx.
                   map (\<lambda>(sid, info).
                          (data_key p idx sid,
                           the (generate_base_addresses K p count idx) + t_relative_address info))
                     (filter (\<lambda>(sid, info). \<not> is_register_disabled c
                          (the (generate_base_addresses K p count idx) + t_relative_address info))
                        template)) idxs)"
    by blast
  show ?case using base s1 s2 by simp
qed

lemma device_sensors_result:
  assumes "\<forall>idx\<in>{1..count}. generate_base_addresses K p count idx \<noteq> None"
    and "\<forall>(sid, info)\<in>set template. \<forall>idx\<in>{1..count}.
           p = ''hc'' \<and> t_device_type info = Some ''Climate''
             \<longrightarrow> \<not> isl (py_format py (t_name info) idx)"
  shows "case device_sensors K py c legacy np (p, count, template) of
           Inl e \<Rightarrow> False
         | Inr sensors \<Rightarrow>
             map (\<lambda>s. (sensor_id s, address s)) sensors
               = concat (map (\<lambda>idx.
                   map (\<lambda>(sid, info).
                          (data_key p idx sid,
                           the (generate_base_addresses K p count idx) + t_relative_address info))
                     (filter (\<lambda>(sid, info). \<not> is_register_disabled c
                          (the (generate_base_addresses K p count idx) + t_relative_address info))
                        template)) [1..count])
             \<and> (\<forall>s\<in>set sensors. \<not> is_register_disabled c (address s))"
proof -
  have "\<forall>idx\<in>set [1..count]. generate_base_addresses K p count idx \<noteq> None"
    and "\<forall>(sid, info)\<in>set template. \<forall>idx\<in>set [1..count].
           p = ''hc'' \<and> t_device_type info = Some ''Climate''
             \<longrightarrow> \<not> isl (py_format py (t_name info) idx)"
    using assms by auto
  from instances_loop_result [OF this, of c legacy np] obtain sensors where
    r: "instances_loop K py c legacy np p count template [1..count] = Inr sensors"
    and m: "map (\<lambda>s. (sensor_id s, address s)) sensors
               = concat (map (\<lambda>idx.
                   map (\<lambda>(sid, info).
                          (data_key p idx sid,
                           the (generate_base_addresses K p count idx) + t_relative_address info))
                     (filter (\<lambda>(sid, info). \<not> is_register_disabled c
                          (the (generate_base_addresses K p count idx) + t_relative_address info))
                        template)) [1..count])"
    by blast
  have "\<not> is_register_disabled c (address s)" if "s \<in> set sensors" for s
  proof -
    from that have "(sensor_id s, address s) \<in> set (map (\<lambda>s. (sensor_id s, address s)) sensors)"
      by (simp add: image_iff) blast
    then show ?thesis unfolding m by auto
  qed
  with r m show ?thesis by (simp add: device_sensors_def)
qed


lemma templates_loop_result:
  assumes "\<forall>(p, n, T)\<in>set triples. \<forall>idx\<in>{1..n}. generate_base_addresses K p n idx \<noteq> None"
    and "\<forall>(p, n, T)\<in>set triples. \<forall>(sid, info)\<in>set T. \<forall>idx\<in>{1..n}.
           p = ''hc'' \<and> t_device_type info = Some ''Climate''
             \<longrightarrow> \<not> isl (py_format py (t_name info) idx)"
  shows "\<exists>sensors. templates_loop K py c legacy np triples = Inr sensors
           \<and> map (\<lambda>s. (sensor_id s, address s)) sensors
               = concat (map (\<lambda>(p, n, T). concat (map (\<lambda>idx.
                   map (\<lambda>(sid, info).
                          (data_key p idx sid,
                           the (generate_base_addresses K p n idx) + t_relative_address info))
                     (filter (\<lambda>(sid, info). \<not> is_register_disabled c
                          (the (generate_base_addresses K p n idx) + t_relative_address info))
                        T)) [1..n])) triples)"
  using assms
proof (induction triples)
  case Nil
  then show ?case by simp
next
  case (Cons triple triples)
  obtain p n T where triple: "triple = (p, n, T)" by (cases triple)
  have b: "\<forall>idx\<in>{1..n}. generate_base_addresses K p n idx \<noteq> None"
    using Cons.prems(1) triple by simp
  have f: "\<forall>(sid, info)\<in>set T. \<forall>idx\<in>{1..n}.
           p = ''hc'' \<and> t_device_type info = Some ''Climate''
             \<longrightarrow> \<not> isl (py_format py (t_name info) idx)"
    using Cons.prems(2) triple by simp
  from device_sensors_result [OF b f, of c legacy np] obtain s1 where
    s1: "device_sensors K py c legacy np (p, n, T) = Inr s1"
    "map (\<lambda>s. (sensor_id s, address s)) s1
       = concat (map (\<lambda>idx.
                   map (\<lambda>(sid, info).
                          (data_key p idx sid,
                           the (generate_base_addresses K p n idx) + t_relative_address info))
                     (filter (\<lambda>(sid, info). \<not> is_register_disabled c
                          (the (generate_base_addresses K p n idx) + t_relative_address info))
                        T)) [1..n])"
    by (cases "device_sensors K py c legacy np (p, n, T)") auto
  have "\<forall>(p, n, T)\<in>set triples. \<forall>idx\<in>{1..n}. generate_base_addresses K p n idx \<noteq> None"
    and "\<forall>(p, n, T)\<in>set triples. \<forall>(sid, info)\<in>set T. \<forall>idx\<in>{1..n}.
           p = ''hc'' \<and> t_device_type info = Some ''Climate''
             \<longrightarrow> \<not> isl (py_format py (t_name info) idx)"
    using Cons.prems by simp_all
  from Cons.IH [OF this] obtain s2 where
    s2: "templates_loop K py c legacy np triples = Inr s2"
    "map (\<lambda>s. (sensor_id s, address s)) s2
               = concat (map (\<lambda>(p, n, T). concat (map (\<lambda>idx.
                   map (\<lambda>(sid, info).
                          (data_key p idx sid,
                           the (generate_base_addresses K p n idx) + t_relative_address info))
                     (filter (\<lambda>(sid, info). \<not> is_register_disabled c
                          (the (generate_base_addresses K p n idx) + t_relative_address info))
                        T)) [1..n])) triples)"
    by blast
  show ?case using triple s1 s2 by simp
qed

lemma general_sensor_disabled:
  assumes "is_register_disabled c (g_address (snd item))"
  shows "general_sensor K c legacy np item = None"
  using assms by (simp add: general_sensor_def)

lemma general_sensor_enabled:
  assumes "\<not> is_register_disabled c (g_address (snd item))"
  shows "\<exists>s. general_sensor K c legacy np item = Some s
           \<and> sensor_id s = general_sensor_id legacy item \<and> address s = g_address (snd item)
           \<and> attr_unique_id s = general_sensor_id legacy item"
  using assms
  by (simp add: general_sensor_def general_sensor_id_def Let_def attr_unique_id_init_None)

lemma general_loop_result:
  "map (\<lambda>s. (sensor_id s, address s)) (general_loop K c legacy np items)
     = map (\<lambda>item. (general_sensor_id legacy item, g_address (snd item)))
         (filter (\<lambda>item. \<not> is_register_disabled c (g_address (snd item))) items)"
proof (induction items)
  case Nil
  show ?case by simp
next
  case (Cons item items)
  show ?case
  proof (cases "is_register_disabled c (g_address (snd item))")
    case True
    then have "general_sensor K c legacy np item = None"
      by (rule general_sensor_disabled)
    with True Cons show ?thesis by simp
  next
    case False
    from general_sensor_enabled [OF False, of K legacy np] obtain s where
      "general_sensor K c legacy np item = Some s"
      "sensor_id s = general_sensor_id legacy item" "address s = g_address (snd item)"
      by blast
    with False Cons show ?thesis by simp
  qed
qed

text \<open>
  C7: for every device type \<open>(prefix, count, template)\<close> and every disabled-address
  predicate, setup makes exactly one sensor for every template entry of every instance
  \<open>1..count\<close> whose absolute address, the base address of the instance plus the
  relative address of the entry, is not disabled, and no sensor at a disabled address;
  a disabled entry is skipped and raises nothing. So the sensors \<open>async_setup_entry\<close>
  hands over are, in order, those of the enabled template entries of every instance of
  every device type, followed by those of the enabled general sensors. The base address
  of an instance is its entry in the dictionary of base addresses, which has every
  instance index; the name templates of the climate entries of the heating circuits are
  such that \<open>format\<close> accepts them.
\<close>

theorem setup_sensors_enabled:
  assumes "\<forall>(p, n, T)\<in>set (TEMPLATES K e). \<forall>idx\<in>{1..n}.
             generate_base_addresses K p n idx \<noteq> None"
    and "\<forall>(p, n, T)\<in>set (TEMPLATES K e). \<forall>(sid, info)\<in>set T. \<forall>idx\<in>{1..n}.
           p = ''hc'' \<and> t_device_type info = Some ''Climate''
             \<longrightarrow> \<not> isl (py_format py (t_name info) idx)"
  shows "case async_setup_entry K py (Some c) e of
           Inl err \<Rightarrow> False
         | Inr None \<Rightarrow> False
         | Inr (Some sensors) \<Rightarrow>
             map (\<lambda>s. (sensor_id s, address s)) sensors
               = concat (map (\<lambda>(p, n, T). concat (map (\<lambda>idx.
                   map (\<lambda>(sid, info).
                          (data_key p idx sid,
                           the (generate_base_addresses K p n idx) + t_relative_address info))
                     (filter (\<lambda>(sid, info). \<not> is_register_disabled c
                          (the (generate_base_addresses K p n idx) + t_relative_address info))
                        T)) [1..n])) (TEMPLATES K e))
                 @ map (\<lambda>item. (general_sensor_id (get (use_legacy_modbus_names e) False) item,
                                 g_address (snd item)))
                     (filter (\<lambda>item. \<not> is_register_disabled c (g_address (snd item)))
                        (SENSOR_TYPES K))
             \<and> (\<forall>s\<in>set sensors. \<not> is_register_disabled c (address s))"
proof -
  let ?legacy = "get (use_legacy_modbus_names e) False"
  let ?np = "name_prefix_of e"
  let ?ts = "concat (map (\<lambda>(p, n, T). concat (map (\<lambda>idx.
                   map (\<lambda>(sid, info).
                          (data_key p idx sid,
                           the (generate_base_addresses K p n idx) + t_relative_address info))
                     (filter (\<lambda>(sid, info). \<not> is_register_disabled c
                          (the (generate_base_addresses K p n idx) + t_relative_address info))
                        T)) [1..n])) (TEMPLATES K e))"
  let ?gs = "map (\<lambda>item. (general_sensor_id ?legacy item, g_address (snd item)))
                     (filter (\<lambda>item. \<not> is_register_disabled c (g_address (snd item)))
                        (SENSOR_TYPES K))"
  from templates_loop_result [OF assms, of c ?legacy ?np] obtain s1 where
    s1: "templates_loop K py c ?legacy ?np (TEMPLATES K e) = Inr s1"
    and m1: "map (\<lambda>s. (sensor_id s, address s)) s1 = ?ts"
    by blast
  let ?s2 = "general_loop K c ?legacy ?np (SENSOR_TYPES K)"
  have m2: "map (\<lambda>s. (sensor_id s, address s)) ?s2 = ?gs"
    by (rule general_loop_result)
  have r: "async_setup_entry K py (Some c) e = Inr (Some (s1 @ ?s2))"
    using s1 by (simp add: async_setup_entry_def Let_def)
  have m: "map (\<lambda>s. (sensor_id s, address s)) (s1 @ ?s2) = ?ts @ ?gs"
    using m1 m2 by simp
  have "\<not> is_register_disabled c (address s)" if "s \<in> set (s1 @ ?s2)" for s
  proof -
    from that have "(sensor_id s, address s) \<in> set (map (\<lambda>s. (sensor_id s, address s)) (s1 @ ?s2))"
      by (simp add: image_iff) blast
    then have "(sensor_id s, address s) \<in> set ?ts \<union> set ?gs"
      unfolding m by simp
    then show ?thesis by auto
  qed
  with r m show ?thesis by simp
qed

theorem setup_sensors_enabled_witness:
  "map_sum id (map_option (map (\<lambda>s. (sensor_id s, address s))))
     (async_setup_entry ex_consts ex_py (Some ex_coordinator_disabled) ex_entry_two_hps)
   = Inr (Some [(''hp1_flow_temp'', 1005), (''hp2_flow_temp'', 1105),
                (''hp2_operating_state'', 1103), (''ambient_temp'', 2)])"
proof -
  have h1: "\<forall>(p, n, T)\<in>set (TEMPLATES ex_consts ex_entry_two_hps). \<forall>idx\<in>{1..n}.
             generate_base_addresses ex_consts p n idx \<noteq> None"
    by (simp add: TEMPLATES_def ex_consts_def ex_entry_two_hps_def ex_base_addresses_def get_def)
  have h2: "\<forall>(p, n, T)\<in>set (TEMPLATES ex_consts ex_entry_two_hps). \<forall>(sid, info)\<in>set T.
           \<forall>idx\<in>{1..n}. p = ''hc'' \<and> t_device_type info = Some ''Climate''
             \<longrightarrow> \<not> isl (py_format ex_py (t_name info) idx)"
    by (simp add: ex_py_def)
  have e: "concat (map (\<lambda>(p, n, T). concat (map (\<lambda>idx.
                   map (\<lambda>(sid, info).
                          (data_key p idx sid,
                           the (generate_base_addresses ex_consts p n idx) + t_relative_address info))
                     (filter (\<lambda>(sid, info). \<not> is_register_disabled ex_coordinator_disabled
                          (the (generate_base_addresses ex_consts p n idx) + t_relative_address info))
                        T)) [1..n])) (TEMPLATES ex_consts ex_entry_two_hps))
                 @ map (\<lambda>item. (general_sensor_id (get (use_legacy_modbus_names ex_entry_two_hps) False) item,
                                 g_address (snd item)))
                     (filter (\<lambda>item. \<not> is_register_disabled ex_coordinator_disabled (g_address (snd item)))
                        (SENSOR_TYPES ex_consts))
     = [(''hp1_flow_temp'', 1005), (''hp2_flow_temp'', 1105),
        (''hp2_operating_state'', 1103), (''ambient_temp'', 2)]"
    by code_simp
  from setup_sensors_enabled [OF h1 h2, of ex_coordinator_disabled]
  show ?thesis
    unfolding e
    by (cases "async_setup_entry ex_consts ex_py (Some ex_coordinator_disabled) ex_entry_two_hps")
      (auto split: option.splits)
qed

section \<open>Strings: occurrences, replacement and decimal digits\<close>

lemma prefix_before_char:
  assumes "c \<notin> set w"
  shows "prefix w (xs @ c # ys) \<longleftrightarrow> prefix w xs"
proof
  assume "prefix w (xs @ c # ys)"
  then consider "prefix w xs" | us where "w = xs @ us" "prefix us (c # ys)"
    by (auto simp add: prefix_append)
  then show "prefix w xs"
  proof cases
    case 1
    then show ?thesis .
  next
    case 2
    with assms have "us = []" by (cases us) auto
    with 2 show ?thesis by simp
  qed
next
  assume "prefix w xs"
  then show "prefix w (xs @ c # ys)" by (rule prefix_prefix)
qed

lemma str_in_split_char:
  assumes "c \<notin> set w"
  shows "str_in w (xs @ c # ys) \<longleftrightarrow> str_in w xs \<or> str_in w ys"
proof (induction xs)
  case Nil
  show ?case using prefix_before_char [OF assms, of "[]" ys] by auto
next
  case (Cons x xs)
  have "prefix w ((x # xs) @ c # ys) \<longleftrightarrow> prefix w (x # xs)"
    using assms by (rule prefix_before_char)
  with Cons show ?case by auto
qed

lemma str_in_set:
  assumes "str_in w s"
  shows "set w \<subseteq> set s"
  using assms
proof (induction s)
  case Nil
  then show ?case by simp
next
  case (Cons c cs)
  from Cons.prems have "prefix w (c # cs) \<or> str_in w cs" by simp
  then show ?case
  proof
    assume "prefix w (c # cs)"
    then show ?thesis by (rule set_mono_prefix)
  next
    assume "str_in w cs"
    then have "set w \<subseteq> set cs" by (rule Cons.IH)
    then show ?thesis by auto
  qed
qed

lemma replace_absent:
  assumes "\<not> str_in (a # old) s"
  shows "replace (a # old) new s = s"
  using assms by (induction s) auto

lemma replace_sensor_prefix:
  "replace ''sensor.'' [] (''sensor.'' @ k) = replace ''sensor.'' [] k"
  by simp

lemma digit_char_digit:
  assumes "d < 10"
  shows "digit_char d \<in> set ''0123456789''" and "of_char (digit_char d) = 48 + d"
proof -
  from assms have "d \<in> {0, 1, 2, 3, 4, 5, 6, 7, 8, 9}" by auto
  then show "digit_char d \<in> set ''0123456789''" and "of_char (digit_char d) = 48 + d"
    by (auto simp add: digit_char_def)
qed

lemma str_nat_digits: "set (str_nat n) \<subseteq> set ''0123456789''"
proof (induction n rule: str_nat.induct)
  case (1 n)
  show ?case
  proof (cases "n < 10")
    case True
    then show ?thesis using digit_char_digit(1) [of n] by (subst str_nat.simps) simp
  next
    case False
    have "n mod 10 < 10" by simp
    from digit_char_digit(1) [OF this] 1 [OF False] False
    show ?thesis by (subst str_nat.simps) simp
  qed
qed

lemma str_nat_value: "foldl (\<lambda>a c. 10 * a + (of_char c - 48)) 0 (str_nat n) = n"
proof (induction n rule: str_nat.induct)
  case (1 n)
  show ?case
  proof (cases "n < 10")
    case True
    then show ?thesis using digit_char_digit(2) [of n] by (subst str_nat.simps) simp
  next
    case False
    have "n mod 10 < 10" by simp
    from digit_char_digit(2) [OF this] 1 [OF False] False
    show ?thesis by (subst str_nat.simps) simp
  qed
qed

lemma str_nat_inj:
  assumes "str_nat n = str_nat m"
  shows "n = m"
  using assms str_nat_value [of n] str_nat_value [of m] by simp

lemma str_int_inj:
  assumes "str_int i = str_int j" and "0 \<le> i" and "0 \<le> j"
  shows "i = j"
proof -
  from assms have "str_nat (nat i) = str_nat (nat j)" by (simp add: str_int_def)
  then have "nat i = nat j" by (rule str_nat_inj)
  with assms(2,3) show ?thesis by simp
qed

lemma str_int_digits:
  assumes "0 \<le> i"
  shows "set (str_int i) \<subseteq> set ''0123456789''"
  using assms str_nat_digits [of "nat i"] by (simp add: str_int_def)

lemma append_char_inj:
  assumes "xs @ c # ys = xs' @ c # ys'" and "c \<notin> set xs" and "c \<notin> set xs'"
  shows "xs = xs' \<and> ys = ys'"
  using assms
proof (induction xs arbitrary: xs')
  case Nil
  then show ?case by (cases xs') auto
next
  case (Cons x xs)
  then show ?case by (cases xs') auto
qed

section \<open>Unique ids\<close>

lemma data_key_inj:
  assumes "p1 \<in> {''hp'', ''boil'', ''buff'', ''sol'', ''hc''}"
    and "p2 \<in> {''hp'', ''boil'', ''buff'', ''sol'', ''hc''}"
    and "0 \<le> i1" and "0 \<le> i2"
    and "data_key p1 i1 s1 = data_key p2 i2 s2"
  shows "p1 = p2 \<and> i1 = i2 \<and> s1 = s2"
proof -
  have p: "p1 = p2" using assms(1,2,5) by (auto simp add: data_key_def)
  with assms(5) have eq: "str_int i1 @ CHR ''_'' # s1 = str_int i2 @ CHR ''_'' # s2"
    by (simp add: data_key_def)
  have "CHR ''_'' \<notin> set (str_int i1)" and "CHR ''_'' \<notin> set (str_int i2)"
    using str_int_digits [OF assms(3)] str_int_digits [OF assms(4)] by auto
  from append_char_inj [OF eq this] have "str_int i1 = str_int i2" and s: "s1 = s2"
    by simp_all
  from str_int_inj [OF this(1) assms(3,4)] p s show ?thesis by simp
qed

lemma data_key_no_sensor:
  assumes "p \<in> {''hp'', ''boil'', ''buff'', ''sol'', ''hc''}" and "0 \<le> idx"
    and "\<not> str_in ''sensor.'' sid"
  shows "\<not> str_in ''sensor.'' (data_key p idx sid)"
proof
  assume "str_in ''sensor.'' (data_key p idx sid)"
  then have "str_in ''sensor.'' ((p @ str_int idx) @ CHR ''_'' # sid)"
    by (simp add: data_key_def)
  moreover have "CHR ''_'' \<notin> set ''sensor.''" by simp
  ultimately have "str_in ''sensor.'' (p @ str_int idx) \<or> str_in ''sensor.'' sid"
    using str_in_split_char by blast
  with assms(3) have "str_in ''sensor.'' (p @ str_int idx)" by simp
  then have "set ''sensor.'' \<subseteq> set (p @ str_int idx)" by (rule str_in_set)
  then have "CHR ''.'' \<in> set p \<union> set (str_int idx)" by auto
  moreover have "CHR ''.'' \<notin> set p" using assms(1) by auto
  moreover have "CHR ''.'' \<notin> set (str_int idx)" using str_int_digits [OF assms(2)] by auto
  ultimately show False by simp
qed

lemma entity_unique_id:
  assumes "\<not> str_in ''sensor.'' key" and "legacy \<longrightarrow> \<not> str_in ''sensor.'' np"
  shows "replace ''sensor.'' []
           (if legacy then ''sensor.'' @ np @ ''_'' @ key else ''sensor.'' @ key)
         = unique_id_prefix legacy np @ key"
proof (cases legacy)
  case False
  have "replace ''sensor.'' [] key = key" using assms(1) by (rule replace_absent)
  with False show ?thesis by (simp only: replace_sensor_prefix unique_id_prefix_def if_False) simp
next
  case True
  have "CHR ''_'' \<notin> set ''sensor.''" by simp
  then have "str_in ''sensor.'' (np @ CHR ''_'' # key)
      \<longleftrightarrow> str_in ''sensor.'' np \<or> str_in ''sensor.'' key"
    by (rule str_in_split_char)
  with assms True have "\<not> str_in ''sensor.'' (np @ CHR ''_'' # key)" by simp
  then have "replace ''sensor.'' [] (np @ CHR ''_'' # key) = np @ CHR ''_'' # key"
    by (rule replace_absent)
  moreover have "replace ''sensor.'' [] (''sensor.'' @ np @ ''_'' @ key)
      = replace ''sensor.'' [] (np @ CHR ''_'' # key)"
    using replace_sensor_prefix [of "np @ ''_'' @ key"] by simp
  ultimately show ?thesis using True by (simp add: unique_id_prefix_def)
qed

lemma template_naming_overridden:
  assumes "truthy (override_name c legacy (data_key p idx sid))"
  shows "template_naming py c legacy np p idx sid info
         = Inr (the (override_name c legacy (data_key p idx sid)),
                data_key p idx sid,
                ''sensor.'' @ np @ ''_'' @ the (override_name c legacy (data_key p idx sid)),
                np @ ''_'' @ the (override_name c legacy (data_key p idx sid)))"
  using assms by (simp add: template_naming_def override_name_def Let_def)

lemma template_naming_plain:
  assumes "\<not> truthy (override_name c legacy (data_key p idx sid))"
    and "template_naming py c legacy np p idx sid info = Inr (nm, sf, eid, uid)"
  shows "sf = data_key p idx sid"
    and "uid = replace ''sensor.'' []
           (if legacy then ''sensor.'' @ np @ ''_'' @ data_key p idx sid
            else ''sensor.'' @ data_key p idx sid)"
proof -
  from assms(1) have "\<not> truthy (if legacy \<and> sensor_overrides c \<noteq> None
             then the (sensor_overrides c) (data_key p idx sid) else None)"
    by (simp add: override_name_def)
  with assms(2) have "sf = data_key p idx sid
    \<and> uid = replace ''sensor.'' []
           (if legacy then ''sensor.'' @ np @ ''_'' @ data_key p idx sid
            else ''sensor.'' @ data_key p idx sid)"
    unfolding template_naming_def Let_def
    by (cases "if p = ''hc'' \<and> t_device_type info = Some ''Climate''
                  then py_format py (t_name info) idx
                  else Inr (upper p @ str_int idx @ '' '' @ t_name info)") (auto split: if_splits)
  then show "sf = data_key p idx sid"
    and "uid = replace ''sensor.'' []
           (if legacy then ''sensor.'' @ np @ ''_'' @ data_key p idx sid
            else ''sensor.'' @ data_key p idx sid)"
    by simp_all
qed

lemma template_naming_ids:
  assumes "template_naming py c legacy np p idx sid info = Inr (nm, sf, eid, uid)"
    and "\<not> str_in ''sensor.'' (data_key p idx sid)"
    and "legacy \<longrightarrow> \<not> str_in ''sensor.'' np"
  shows "sf = data_key p idx sid"
    and "uid = unique_id_prefix legacy np @ final_name c legacy (data_key p idx sid)"
proof -
  let ?key = "data_key p idx sid"
  have "sf = ?key \<and> uid = unique_id_prefix legacy np @ final_name c legacy ?key"
  proof (cases "truthy (override_name c legacy ?key)")
    case True
    then have legacy: legacy by (cases legacy) (simp_all add: override_name_def truthy_def)
    from template_naming_overridden [OF True, of py np info] assms(1)
    have "sf = ?key" and "uid = np @ ''_'' @ the (override_name c legacy ?key)"
      by simp_all
    with True legacy show ?thesis by (simp add: final_name_def unique_id_prefix_def)
  next
    case False
    from template_naming_plain [OF False assms(1)]
    have "sf = ?key" and "uid = replace ''sensor.'' []
           (if legacy then ''sensor.'' @ np @ ''_'' @ ?key else ''sensor.'' @ ?key)"
      by simp_all
    with entity_unique_id [OF assms(2,3)] False show ?thesis by (simp add: final_name_def)
  qed
  then show "sf = ?key" and "uid = unique_id_prefix legacy np @ final_name c legacy ?key"
    by simp_all
qed

lemma template_sensor_Some:
  assumes "template_sensor K py c legacy np p idx base (sid, info) = Inr (Some s)"
  shows "\<exists>nm sf eid uid.
           template_naming py c legacy np p idx sid info = Inr (nm, sf, eid, uid)
           \<and> sensor_id s = sf
           \<and> attr_unique_id s = (if uid \<noteq> [] then uid else sf)"
proof (cases "is_register_disabled c (base + t_relative_address info)")
  case True
  with assms show ?thesis by (simp add: template_sensor_def)
next
  case False
  show ?thesis
  proof (cases "template_naming py c legacy np p idx sid info")
    case (Inl e)
    with assms False show ?thesis by (simp add: template_sensor_def Let_def)
  next
    case (Inr r)
    obtain nm sf eid uid where r: "r = (nm, sf, eid, uid)" by (cases r)
    from assms False Inr r
    have "sensor_id s = sf \<and> attr_unique_id s = (if uid \<noteq> [] then uid else sf)"
      by (auto simp add: template_sensor_def Let_def attr_unique_id_init)
    with Inr r show ?thesis by simp
  qed
qed

lemma template_sensor_ids:
  assumes "template_sensor K py c legacy np p idx base (sid, info) = Inr (Some s)"
    and "p \<in> {''hp'', ''boil'', ''buff'', ''sol'', ''hc''}" and "0 \<le> idx"
    and "\<not> str_in ''sensor.'' sid" and "legacy \<longrightarrow> \<not> str_in ''sensor.'' np"
  shows "sensor_id s = data_key p idx sid"
    and "attr_unique_id s = unique_id_prefix legacy np @ final_name c legacy (sensor_id s)"
proof -
  from template_sensor_Some [OF assms(1)] obtain nm sf eid uid where
    n: "template_naming py c legacy np p idx sid info = Inr (nm, sf, eid, uid)"
    and sid: "sensor_id s = sf"
    and s: "attr_unique_id s = (if uid \<noteq> [] then uid else sf)"
    by blast
  have key: "\<not> str_in ''sensor.'' (data_key p idx sid)"
    using assms(2-4) by (rule data_key_no_sensor)
  from template_naming_ids [OF n key assms(5)]
  have sf: "sf = data_key p idx sid"
    and uid: "uid = unique_id_prefix legacy np @ final_name c legacy (data_key p idx sid)"
    by simp_all
  from sid sf show "sensor_id s = data_key p idx sid" by simp
  have "data_key p idx sid \<noteq> []" by (simp add: data_key_def)
  have "uid = [] \<longrightarrow> uid = sf"
  proof
    assume e: "uid = []"
    with uid have "unique_id_prefix legacy np = []" and f: "final_name c legacy (data_key p idx sid) = []"
      by simp_all
    then have "\<not> legacy" by (simp add: unique_id_prefix_def split: if_splits)
    then have "final_name c legacy (data_key p idx sid) = data_key p idx sid"
      by (simp add: final_name_def override_name_def truthy_def)
    with f sf e show "uid = sf" by simp
  qed
  with s have "attr_unique_id s = uid" by auto
  with uid sid sf show "attr_unique_id s = unique_id_prefix legacy np @ final_name c legacy (sensor_id s)"
    by simp
qed

lemma items_loop_ids:
  assumes "items_loop K py c legacy np p idx base items = Inr sensors"
    and "p \<in> {''hp'', ''boil'', ''buff'', ''sol'', ''hc''}" and "0 \<le> idx"
    and "\<forall>sid\<in>fst ` set items. \<not> str_in ''sensor.'' sid"
    and "distinct (map fst items)" and "legacy \<longrightarrow> \<not> str_in ''sensor.'' np"
  shows "distinct (map sensor_id sensors)
       \<and> set (map sensor_id sensors) \<subseteq> data_key p idx ` fst ` set items
       \<and> (\<forall>s\<in>set sensors.
            attr_unique_id s = unique_id_prefix legacy np @ final_name c legacy (sensor_id s))"
  using assms
proof (induction items arbitrary: sensors)
  case Nil
  then show ?case by simp
next
  case (Cons item items)
  obtain sid info where item: "item = (sid, info)" by (cases item)
  from Cons.prems(1) item obtain so rest where
    so: "template_sensor K py c legacy np p idx base (sid, info) = Inr so"
    and rest: "items_loop K py c legacy np p idx base items = Inr rest"
    and sensors: "sensors = (case so of None \<Rightarrow> rest | Some x \<Rightarrow> x # rest)"
    by (auto split: sum.splits)
  have ih: "distinct (map sensor_id rest)
       \<and> set (map sensor_id rest) \<subseteq> data_key p idx ` fst ` set items
       \<and> (\<forall>s\<in>set rest.
            attr_unique_id s = unique_id_prefix legacy np @ final_name c legacy (sensor_id s))"
    using Cons.IH [OF rest Cons.prems(2,3)] Cons.prems(4,5,6) by simp
  show ?case
  proof (cases so)
    case None
    with sensors ih show ?thesis by auto
  next
    case (Some x)
    from Cons.prems(4) item have "\<not> str_in ''sensor.'' sid" by simp
    from template_sensor_ids [OF so [unfolded Some] Cons.prems(2,3) this Cons.prems(6)]
    have x: "sensor_id x = data_key p idx sid"
      and u: "attr_unique_id x = unique_id_prefix legacy np @ final_name c legacy (sensor_id x)"
      by simp_all
    have "data_key p idx sid \<notin> data_key p idx ` fst ` set items"
    proof
      assume "data_key p idx sid \<in> data_key p idx ` fst ` set items"
      then obtain sid' where "sid' \<in> fst ` set items" and "data_key p idx sid = data_key p idx sid'"
        by blast
      then have "sid \<in> fst ` set items" by (simp add: data_key_def)
      with Cons.prems(5) item show False by simp
    qed
    with ih x u sensors Some item show ?thesis by auto
  qed
qed

lemma instances_loop_ids:
  assumes "instances_loop K py c legacy np p count template idxs = Inr sensors"
    and "p \<in> {''hp'', ''boil'', ''buff'', ''sol'', ''hc''}" and "\<forall>idx\<in>set idxs. 0 \<le> idx"
    and "\<forall>sid\<in>fst ` set template. \<not> str_in ''sensor.'' sid"
    and "distinct (map fst template)" and "distinct idxs"
    and "legacy \<longrightarrow> \<not> str_in ''sensor.'' np"
  shows "distinct (map sensor_id sensors)
       \<and> set (map sensor_id sensors) \<subseteq> (\<Union>idx\<in>set idxs. data_key p idx ` fst ` set template)
       \<and> (\<forall>s\<in>set sensors.
            attr_unique_id s = unique_id_prefix legacy np @ final_name c legacy (sensor_id s))"
  using assms
proof (induction idxs arbitrary: sensors)
  case Nil
  then show ?case by simp
next
  case (Cons idx idxs)
  from Cons.prems(1) obtain base s1 s2 where
    s1: "items_loop K py c legacy np p idx base template = Inr s1"
    and s2: "instances_loop K py c legacy np p count template idxs = Inr s2"
    and sensors: "sensors = s1 @ s2"
    by (auto split: option.splits sum.splits)
  from Cons.prems(3) have idx: "0 \<le> idx" by simp
  from items_loop_ids [OF s1 Cons.prems(2) idx Cons.prems(4,5,7)]
  have a: "distinct (map sensor_id s1)"
    and a': "set (map sensor_id s1) \<subseteq> data_key p idx ` fst ` set template"
    and a'': "\<forall>s\<in>set s1.
            attr_unique_id s = unique_id_prefix legacy np @ final_name c legacy (sensor_id s)"
    by simp_all
  have b: "distinct (map sensor_id s2)"
    and b': "set (map sensor_id s2) \<subseteq> (\<Union>idx\<in>set idxs. data_key p idx ` fst ` set template)"
    and b'': "\<forall>s\<in>set s2.
            attr_unique_id s = unique_id_prefix legacy np @ final_name c legacy (sensor_id s)"
    using Cons.IH [OF s2 Cons.prems(2)] Cons.prems(3,4,5,6,7) by simp_all
  have disj: "set (map sensor_id s1) \<inter> set (map sensor_id s2) = {}"
  proof (rule ccontr)
    assume "set (map sensor_id s1) \<inter> set (map sensor_id s2) \<noteq> {}"
    then obtain k where "k \<in> set (map sensor_id s1) \<and> k \<in> set (map sensor_id s2)"
      by blast
    then have k1: "k \<in> data_key p idx ` fst ` set template"
      and k2: "k \<in> (\<Union>idx\<in>set idxs. data_key p idx ` fst ` set template)"
      using a' b' by blast+
    from k1 obtain sid where k: "k = data_key p idx sid" by blast
    from k2 obtain idx' sid' where k': "k = data_key p idx' sid'" and i': "idx' \<in> set idxs"
      by blast
    from i' Cons.prems(3) have "0 \<le> idx'" by simp
    moreover from k k' have "data_key p idx sid = data_key p idx' sid'" by simp
    ultimately have "idx = idx'"
      using data_key_inj [OF Cons.prems(2) Cons.prems(2) idx, of idx' sid sid'] by simp
    with i' Cons.prems(6) show False by simp
  qed
  have "set (map sensor_id sensors) = set (map sensor_id s1) \<union> set (map sensor_id s2)"
    using sensors by simp
  also have "\<dots> \<subseteq> data_key p idx ` fst ` set template
      \<union> (\<Union>idx\<in>set idxs. data_key p idx ` fst ` set template)"
    using a' b' by (rule Un_mono)
  also have "\<dots> = (\<Union>i\<in>set (idx # idxs). data_key p i ` fst ` set template)"
    by simp
  finally have incl: "set (map sensor_id sensors)
      \<subseteq> (\<Union>i\<in>set (idx # idxs). data_key p i ` fst ` set template)" .
  from a b disj sensors have d: "distinct (map sensor_id sensors)" by simp
  from a'' b'' sensors have u: "\<forall>s\<in>set sensors.
            attr_unique_id s = unique_id_prefix legacy np @ final_name c legacy (sensor_id s)"
    by auto
  from d incl u show ?case by blast
qed

lemma templates_loop_ids:
  assumes "templates_loop K py c legacy np triples = Inr sensors"
    and "distinct (map fst triples)"
    and "fst ` set triples \<subseteq> {''hp'', ''boil'', ''buff'', ''sol'', ''hc''}"
    and "\<forall>(p, n, T)\<in>set triples.
           distinct (map fst T) \<and> (\<forall>sid\<in>fst ` set T. \<not> str_in ''sensor.'' sid)"
    and "legacy \<longrightarrow> \<not> str_in ''sensor.'' np"
  shows "distinct (map sensor_id sensors)
       \<and> set (map sensor_id sensors)
           \<subseteq> (\<Union>(p, n, T)\<in>set triples. \<Union>idx\<in>{1..n}. data_key p idx ` fst ` set T)
       \<and> (\<forall>s\<in>set sensors.
            attr_unique_id s = unique_id_prefix legacy np @ final_name c legacy (sensor_id s))"
  using assms
proof (induction triples arbitrary: sensors)
  case Nil
  then show ?case by simp
next
  case (Cons triple triples)
  obtain p n T where triple: "triple = (p, n, T)" by (cases triple)
  from Cons.prems(1) triple obtain s1 s2 where
    s1: "instances_loop K py c legacy np p n T [1..n] = Inr s1"
    and s2: "templates_loop K py c legacy np triples = Inr s2"
    and sensors: "sensors = s1 @ s2"
    by (auto simp add: device_sensors_def split: sum.splits)
  from Cons.prems(3) triple have p: "p \<in> {''hp'', ''boil'', ''buff'', ''sol'', ''hc''}" by simp
  from Cons.prems(4) triple have T: "distinct (map fst T)"
    "\<forall>sid\<in>fst ` set T. \<not> str_in ''sensor.'' sid"
    by simp_all
  have nonneg: "\<forall>idx\<in>set [1..n]. 0 \<le> idx" by simp
  have dist: "distinct [1..n]" by simp
  from instances_loop_ids [OF s1 p nonneg T(2) T(1) dist Cons.prems(5)]
  have a: "distinct (map sensor_id s1)"
    and a': "set (map sensor_id s1) \<subseteq> (\<Union>idx\<in>{1..n}. data_key p idx ` fst ` set T)"
    and a'': "\<forall>s\<in>set s1.
            attr_unique_id s = unique_id_prefix legacy np @ final_name c legacy (sensor_id s)"
    by simp_all
  have tl: "distinct (map fst triples)"
    "fst ` set triples \<subseteq> {''hp'', ''boil'', ''buff'', ''sol'', ''hc''}"
    "\<forall>(p, n, T)\<in>set triples.
           distinct (map fst T) \<and> (\<forall>sid\<in>fst ` set T. \<not> str_in ''sensor.'' sid)"
    using Cons.prems(2,3,4) by simp_all
  from Cons.IH [OF s2 tl Cons.prems(5)]
  have b: "distinct (map sensor_id s2)"
    and b': "set (map sensor_id s2)
           \<subseteq> (\<Union>(p, n, T)\<in>set triples. \<Union>idx\<in>{1..n}. data_key p idx ` fst ` set T)"
    and b'': "\<forall>s\<in>set s2.
            attr_unique_id s = unique_id_prefix legacy np @ final_name c legacy (sensor_id s)"
    by simp_all
  have disj: "set (map sensor_id s1) \<inter> set (map sensor_id s2) = {}"
  proof (rule ccontr)
    assume "set (map sensor_id s1) \<inter> set (map sensor_id s2) \<noteq> {}"
    then obtain k where "k \<in> set (map sensor_id s1) \<and> k \<in> set (map sensor_id s2)"
      by blast
    then have k1: "k \<in> (\<Union>idx\<in>{1..n}. data_key p idx ` fst ` set T)"
      and k2: "k \<in> (\<Union>(p, n, T)\<in>set triples. \<Union>idx\<in>{1..n}. data_key p idx ` fst ` set T)"
      using a' b' by blast+
    from k1 obtain idx sid where k: "k = data_key p idx sid" "idx \<in> {1..n}"
      by blast
    from k2 obtain t where t: "t \<in> set triples"
      and kt: "k \<in> (case t of (p, n, T) \<Rightarrow> \<Union>idx\<in>{1..n}. data_key p idx ` fst ` set T)"
      by blast
    obtain p' n' T' where t': "t = (p', n', T')" by (cases t)
    from kt t' have "k \<in> (\<Union>idx\<in>{1..n'}. data_key p' idx ` fst ` set T')" by simp
    then obtain idx' sid' where k': "k = data_key p' idx' sid'" "idx' \<in> {1..n'}"
      by blast
    from t t' Cons.prems(3) have p': "p' \<in> {''hp'', ''boil'', ''buff'', ''sol'', ''hc''}"
      by force
    from k(2) k'(2) have nn: "0 \<le> idx" "0 \<le> idx'" by simp_all
    from k(1) k'(1) have "data_key p idx sid = data_key p' idx' sid'" by simp
    from data_key_inj [OF p p' nn this] have "p = p'" by simp
    with t t' have "p \<in> fst ` set triples" by force
    with Cons.prems(2) triple show False by simp
  qed
  have "set (map sensor_id sensors) = set (map sensor_id s1) \<union> set (map sensor_id s2)"
    using sensors by simp
  also have "\<dots> \<subseteq> (\<Union>idx\<in>{1..n}. data_key p idx ` fst ` set T)
      \<union> (\<Union>(p, n, T)\<in>set triples. \<Union>idx\<in>{1..n}. data_key p idx ` fst ` set T)"
    using a' b' by (rule Un_mono)
  also have "\<dots> = (\<Union>(p, n, T)\<in>set (triple # triples). \<Union>idx\<in>{1..n}. data_key p idx ` fst ` set T)"
    using triple by simp
  finally have incl: "set (map sensor_id sensors)
      \<subseteq> (\<Union>(p, n, T)\<in>set (triple # triples). \<Union>idx\<in>{1..n}. data_key p idx ` fst ` set T)" .
  from a b disj sensors have d: "distinct (map sensor_id sensors)" by simp
  from a'' b'' sensors have u: "\<forall>s\<in>set sensors.
            attr_unique_id s = unique_id_prefix legacy np @ final_name c legacy (sensor_id s)"
    by auto
  from d incl u show ?case by blast
qed

lemma set_data_keys:
  "set (data_keys K e)
     = (\<Union>(p, n, T)\<in>set (TEMPLATES K e). \<Union>idx\<in>{1..n}. data_key p idx ` fst ` set T)"
  by (simp add: data_keys_def TEMPLATES_def image_image case_prod_beta)

lemma general_loop_uids:
  "map attr_unique_id (general_loop K c legacy np items)
     = map (general_sensor_id legacy)
         (filter (\<lambda>item. \<not> is_register_disabled c (g_address (snd item))) items)"
proof (induction items)
  case Nil
  show ?case by simp
next
  case (Cons item items)
  show ?case
  proof (cases "is_register_disabled c (g_address (snd item))")
    case True
    then have "general_sensor K c legacy np item = None"
      by (rule general_sensor_disabled)
    with True Cons show ?thesis by simp
  next
    case False
    from general_sensor_enabled [OF False, of K legacy np] obtain s where
      "general_sensor K c legacy np item = Some s"
      "attr_unique_id s = general_sensor_id legacy item"
      by blast
    with False Cons show ?thesis by simp
  qed
qed

text \<open>
  C2, as the specification states it: for every configuration no two sensors of one setup
  share a unique id. With legacy naming and the override name \<open>temp\<close> for both
  \<open>hp1_flow_temp\<close> and \<open>hp1_operating_state\<close>, both sensors get the unique id
  \<open>lambdawp_temp\<close>.
\<close>

theorem unique_ids_counterexample:
  "map_sum id (map_option (map attr_unique_id))
     (async_setup_entry ex_consts ex_py (Some ex_coordinator_clash) ex_entry_legacy)
   = Inr (Some [''lambdawp_temp'', ''lambdawp_temp'', ''ambient_temp'', ''ambient_state''])"
  by code_simp

text \<open>
  C2, amended: with or without legacy naming, no two sensors of one setup share a unique
  id, provided that the names of the templated sensors, which are the override name where
  legacy naming gives a data key a non-empty override and the data key
  \<open>{prefix}{index}_{sensor_id}\<close> otherwise, are pairwise distinct; that the final
  sensor ids of the general sensors are pairwise distinct and none of them is the unique
  id of a templated entry; and that the keys of each template are distinct and neither
  they nor, with legacy naming, the name prefix contain \<open>sensor.\<close>.
\<close>

theorem unique_ids:
  assumes "async_setup_entry K py (Some c) e = Inr (Some sensors)"
    and "legacy = get (use_legacy_modbus_names e) False"
    and "\<forall>(p, n, T)\<in>set (TEMPLATES K e).
           distinct (map fst T) \<and> (\<forall>sid\<in>fst ` set T. \<not> str_in ''sensor.'' sid)"
    and "legacy \<longrightarrow> \<not> str_in ''sensor.'' (name_prefix_of e)"
    and "\<forall>k\<in>set (data_keys K e). \<forall>k'\<in>set (data_keys K e).
           k \<noteq> k' \<longrightarrow> final_name c legacy k \<noteq> final_name c legacy k'"
    and "distinct (map (general_sensor_id legacy) (SENSOR_TYPES K))"
    and "\<forall>g\<in>set (map (general_sensor_id legacy) (SENSOR_TYPES K)). \<forall>k\<in>set (data_keys K e).
           g \<noteq> unique_id_prefix legacy (name_prefix_of e) @ final_name c legacy k"
  shows "distinct (map attr_unique_id sensors)"
proof -
  let ?np = "name_prefix_of e"
  let ?f = "\<lambda>k. unique_id_prefix legacy ?np @ final_name c legacy k"
  let ?gs = "general_loop K c legacy ?np (SENSOR_TYPES K)"
  from assms(1) assms(2) obtain ts where
    ts: "templates_loop K py c legacy ?np (TEMPLATES K e) = Inr ts"
    and sensors: "sensors = ts @ ?gs"
    by (auto simp add: async_setup_entry_def Let_def split: sum.splits)
  have d: "distinct (map fst (TEMPLATES K e))"
    and f: "fst ` set (TEMPLATES K e) \<subseteq> {''hp'', ''boil'', ''buff'', ''sol'', ''hc''}"
    by (simp_all add: TEMPLATES_def)
  from templates_loop_ids [OF ts d f assms(3,4)]
  have a: "distinct (map sensor_id ts)"
    and a': "set (map sensor_id ts) \<subseteq> set (data_keys K e)"
    and a'': "\<forall>s\<in>set ts. attr_unique_id s = ?f (sensor_id s)"
    by (simp_all add: set_data_keys)
  have ut: "map attr_unique_id ts = map ?f (map sensor_id ts)"
    using a'' by simp
  have inj: "inj_on ?f (set (map sensor_id ts))"
  proof (rule inj_onI)
    fix k k'
    assume "k \<in> set (map sensor_id ts)" and "k' \<in> set (map sensor_id ts)" and "?f k = ?f k'"
    with a' have "k \<in> set (data_keys K e)" and "k' \<in> set (data_keys K e)"
      and "final_name c legacy k = final_name c legacy k'"
      by auto
    with assms(5) show "k = k'" by blast
  qed
  have "distinct (map ?f (map sensor_id ts))"
    using a inj distinct_map [of ?f "map sensor_id ts"] by blast
  then have dt: "distinct (map attr_unique_id ts)"
    by (simp only: ut)
  have ug: "map attr_unique_id ?gs
      = map (general_sensor_id legacy)
          (filter (\<lambda>item. \<not> is_register_disabled c (g_address (snd item))) (SENSOR_TYPES K))"
    by (rule general_loop_uids)
  have dg: "distinct (map attr_unique_id ?gs)"
    unfolding ug using assms(6) by (rule distinct_map_filter)
  have "set (map attr_unique_id ts) \<inter> set (map attr_unique_id ?gs) = {}"
  proof (rule ccontr)
    assume "set (map attr_unique_id ts) \<inter> set (map attr_unique_id ?gs) \<noteq> {}"
    then obtain u where u1: "u \<in> set (map attr_unique_id ts)"
      and u2: "u \<in> set (map attr_unique_id ?gs)"
      by blast
    from u1 obtain k where "k \<in> set (map sensor_id ts)" and uk: "u = ?f k"
      unfolding ut by auto
    with a' have k: "k \<in> set (data_keys K e)" by blast
    from u2 have "u \<in> set (map (general_sensor_id legacy) (SENSOR_TYPES K))"
      unfolding ug by auto
    with assms(7) k uk show False by blast
  qed
  with dt dg sensors show ?thesis by simp
qed

theorem unique_ids_witness:
  "distinct (map attr_unique_id
     [ex_supply_temp_sensor, ex_status_sensor, ex_ambient_temp_sensor,
      LambdaSensor_init ''ambient_state'' ''Ambient State'' [] 1 (1::real) [] None 1
        None None True None (Some ''sensor.lambdawp_ambient_state'') None])
   \<and> distinct (map attr_unique_id
     [LambdaSensor_init ''hp1_flow_temp'' ''HP1 Flow Temp'' deg_C 1005 (1::real) ''measurement''
        (Some TEMPERATURE) 5 (Some ''int16'') (Some ''HP'') False (Some 1)
        (Some ''sensor.hp1_flow_temp'') (Some ''hp1_flow_temp''),
      ex_operating_state_sensor,
      LambdaSensor_init ''ambient_temp'' ''Ambient Temp'' deg_C 2 1 [] (Some TEMPERATURE) 2
        None (Some ''main'') False None (Some ''sensor.ambient_temp'') None,
      ex_ambient_state_sensor])"
proof -
  have l2: "True = get (use_legacy_modbus_names ex_entry_legacy) False"
    by (simp add: ex_entry_legacy_def get_def)
  have l3: "\<forall>(p, n, T)\<in>set (TEMPLATES ex_consts ex_entry_legacy).
           distinct (map fst T) \<and> (\<forall>sid\<in>fst ` set T. \<not> str_in ''sensor.'' sid)"
    by code_simp
  have l4: "True \<longrightarrow> \<not> str_in ''sensor.'' (name_prefix_of ex_entry_legacy)"
    by code_simp
  have l5: "\<forall>k\<in>set (data_keys ex_consts ex_entry_legacy).
           \<forall>k'\<in>set (data_keys ex_consts ex_entry_legacy).
           k \<noteq> k' \<longrightarrow> final_name ex_coordinator_legacy True k \<noteq> final_name ex_coordinator_legacy True k'"
    by code_simp
  have l6: "distinct (map (general_sensor_id True) (SENSOR_TYPES ex_consts))"
    by code_simp
  have l7: "\<forall>g\<in>set (map (general_sensor_id True) (SENSOR_TYPES ex_consts)).
           \<forall>k\<in>set (data_keys ex_consts ex_entry_legacy).
           g \<noteq> unique_id_prefix True (name_prefix_of ex_entry_legacy)
                 @ final_name ex_coordinator_legacy True k"
    by code_simp
  have m2: "False = get (use_legacy_modbus_names ex_entry) False"
    by (simp add: ex_entry_def get_def)
  have m3: "\<forall>(p, n, T)\<in>set (TEMPLATES ex_consts ex_entry).
           distinct (map fst T) \<and> (\<forall>sid\<in>fst ` set T. \<not> str_in ''sensor.'' sid)"
    by code_simp
  have m4: "False \<longrightarrow> \<not> str_in ''sensor.'' (name_prefix_of ex_entry)"
    by simp
  have m5: "\<forall>k\<in>set (data_keys ex_consts ex_entry). \<forall>k'\<in>set (data_keys ex_consts ex_entry).
           k \<noteq> k' \<longrightarrow> final_name ex_coordinator False k \<noteq> final_name ex_coordinator False k'"
    by code_simp
  have m6: "distinct (map (general_sensor_id False) (SENSOR_TYPES ex_consts))"
    by code_simp
  have m7: "\<forall>g\<in>set (map (general_sensor_id False) (SENSOR_TYPES ex_consts)).
           \<forall>k\<in>set (data_keys ex_consts ex_entry).
           g \<noteq> unique_id_prefix False (name_prefix_of ex_entry) @ final_name ex_coordinator False k"
    by code_simp
  from unique_ids [OF ex_setup_legacy l2 l3 l4 l5 l6 l7] unique_ids [OF ex_setup m2 m3 m4 m5 m6 m7]
  show ?thesis by (rule conjI)
qed

end
